theory Spec2Isabelle
  imports Main "HOL-Library.Multiset"
begin

section \<open>Strings\<close>

text \<open>
  A Python \<open>str\<close> is modelled as a \<open>string\<close>: a list of code points below 256.
  \<open>str.lower\<close> maps the upper-case letters of that range (A-Z, and U+00C0 to U+00DE
  apart from the multiplication sign U+00D7) to the code point 32 above; \<open>str.strip\<close>
  drops the white space of that range (U+0009 to U+000D, U+001C to U+0020, U+0085, U+00A0)
  from both ends.
\<close>

definition lower_char :: "char \<Rightarrow> char" where
  "lower_char c =
     (let n = (of_char c :: nat)
      in if (65 \<le> n \<and> n \<le> 90) \<or> (192 \<le> n \<and> n \<le> 222 \<and> n \<noteq> 215)
         then char_of (n + 32) else c)"

definition lower :: "string \<Rightarrow> string" where
  "lower s = map lower_char s"

definition isspace :: "char \<Rightarrow> bool" where
  "isspace c =
     (let n = (of_char c :: nat)
      in (9 \<le> n \<and> n \<le> 13) \<or> (28 \<le> n \<and> n \<le> 32) \<or> n = 133 \<or> n = 160)"

definition strip :: "string \<Rightarrow> string" where
  "strip s = rev (dropWhile isspace (rev (dropWhile isspace s)))"

text \<open>\<open>startswith s p\<close> is Python's \<open>s.startswith(p)\<close>.\<close>

fun startswith :: "string \<Rightarrow> string \<Rightarrow> bool" where
  "startswith s [] = True"
| "startswith [] (p # ps) = False"
| "startswith (c # cs) (p # ps) = (c = p \<and> startswith cs ps)"

definition endswith :: "string \<Rightarrow> string \<Rightarrow> bool" where
  "endswith s p = startswith (rev s) (rev p)"

text \<open>\<open>str_in sub s\<close> is Python's \<open>sub in s\<close> on strings: \<open>sub\<close> occurs in \<open>s\<close>.\<close>

fun str_in :: "string \<Rightarrow> string \<Rightarrow> bool" where
  "str_in sub [] = (sub = [])"
| "str_in sub (c # cs) = (startswith (c # cs) sub \<or> str_in sub cs)"

text \<open>\<open>any_in ws s\<close> is \<open>any(w in s for w in ws)\<close>.\<close>

definition any_in :: "string list \<Rightarrow> string \<Rightarrow> bool" where
  "any_in ws s = list_ex (\<lambda>w. str_in w s) ws"

text \<open>
  \<open>random.choice(seq)\<close> returns \<open>seq[i]\<close> for a random index \<open>i\<close> below \<open>len(seq)\<close>.
  The random draw is the argument \<open>r\<close>; every list the program chooses from is a
  non-empty literal.
\<close>

definition choice :: "nat \<Rightarrow> 'a list \<Rightarrow> 'a" where
  "choice r xs = xs ! (r mod length xs)"

section \<open>The response generator (app/chatbot\_service.py)\<close>

definition greeting_keywords :: "string list" where
  "greeting_keywords = [''hello'', ''hi'', ''hey'', ''good morning'', ''good afternoon'']"

definition greeting_responses :: "string list" where
  "greeting_responses =
     [''Hello! How can I help you today?'',
      ''Hi there! What's on your mind?'',
      ''Hey! Great to see you. What can I do for you?'',
      ''Hello! I'm here to chat. What would you like to talk about?'']"

definition how_are_you_response :: string where
  "how_are_you_response = ''I'm doing great, thank you for asking! How are you doing today?''"

definition name_response :: string where
  "name_response =
     ''I'm your friendly chatbot assistant! You can call me ChatBot. What's your name?''"

definition weather_response :: string where
  "weather_response =
     ''I don't have access to real-time weather data, but I hope it's nice where you are! Is there anything else I can help you with?''"

definition time_response :: string where
  "time_response =
     ''I don't have access to the current time, but you can check your device's clock. Is there something else I can assist you with?''"

definition question_responses :: "string list" where
  "question_responses =
     [''That's an interesting question! Let me think about that...'',
      ''Hmm, I'm not sure about that specific question, but I'd love to help you explore it further.'',
      ''Great question! While I might not have the exact answer, I'm happy to discuss it with you.'']"

definition negative_keywords :: "string list" where
  "negative_keywords = [''sad'', ''upset'', ''angry'', ''frustrated'']"

definition negative_response :: string where
  "negative_response =
     ''I'm sorry to hear you're feeling that way. Sometimes it helps to talk about what's bothering you. I'm here to listen.''"

definition positive_keywords :: "string list" where
  "positive_keywords = [''happy'', ''excited'', ''great'', ''awesome'', ''wonderful'']"

definition positive_response :: string where
  "positive_response =
     ''That's wonderful to hear! I'm glad you're feeling positive. What's making you so happy?''"

definition help_keywords :: "string list" where
  "help_keywords = [''help'', ''assist'', ''support'']"

definition help_response :: string where
  "help_response =
     ''I'm here to help! I can chat with you about various topics, answer questions, or just have a friendly conversation. What would you like to talk about?''"

definition thanks_keywords :: "string list" where
  "thanks_keywords = [''thank'', ''thanks'']"

definition thanks_response :: string where
  "thanks_response =
     ''You're very welcome! I'm happy I could help. Is there anything else you'd like to chat about?''"

definition goodbye_keywords :: "string list" where
  "goodbye_keywords = [''bye'', ''goodbye'', ''see you'', ''talk later'']"

definition goodbye_responses :: "string list" where
  "goodbye_responses =
     [''Goodbye! It was great chatting with you. Have a wonderful day!'',
      ''See you later! Feel free to come back anytime you want to chat.'',
      ''Take care! I enjoyed our conversation. Come back soon!'']"

definition default_responses :: "string list" where
  "default_responses =
     [''That's interesting! Tell me more about that.'',
      ''I see what you mean. What made you think about that?'',
      ''Thanks for sharing that with me! How do you feel about it?'',
      ''That sounds intriguing. Can you elaborate a bit more?'',
      ''I appreciate you telling me that. What's your perspective on it?'',
      ''Interesting point! I'd love to hear more of your thoughts on this.'']"

text \<open>The branch of \<open>generate_response\<close> taken once the input ends with a question mark.\<close>

definition question_reply :: "nat \<Rightarrow> string \<Rightarrow> string" where
  "question_reply r user_message_lower =
     (if str_in ''how are you'' user_message_lower then how_are_you_response
      else if str_in ''what'' user_message_lower \<and> str_in ''name'' user_message_lower
        then name_response
      else if str_in ''weather'' user_message_lower then weather_response
      else if str_in ''time'' user_message_lower then time_response
      else choice r question_responses)"

definition generate_response :: "nat \<Rightarrow> string \<Rightarrow> string" where
  "generate_response r user_message =
     (let user_message_lower = strip (lower user_message)
      in if any_in greeting_keywords user_message_lower then choice r greeting_responses
         else if endswith user_message_lower ''?'' then question_reply r user_message_lower
         else if any_in negative_keywords user_message_lower then negative_response
         else if any_in positive_keywords user_message_lower then positive_response
         else if any_in help_keywords user_message_lower then help_response
         else if any_in thanks_keywords user_message_lower then thanks_response
         else if any_in goodbye_keywords user_message_lower then choice r goodbye_responses
         else choice r default_responses)"

text \<open>Every reply the question branch can give.\<close>

definition question_category_replies :: "string list" where
  "question_category_replies =
     [how_are_you_response, name_response, weather_response, time_response] @ question_responses"

text \<open>Every reply the generator can give.\<close>

definition all_responses :: "string list" where
  "all_responses =
     greeting_responses @ question_category_replies
     @ [negative_response, positive_response, help_response, thanks_response]
     @ goodbye_responses @ default_responses"

section \<open>The data model (app/models.py)\<close>

text \<open>
  The three tables. A \<open>datetime\<close> is an integer count of microseconds. A row read from
  the store always carries its primary key, so \<open>id\<close> is an \<open>int\<close> here.
\<close>

datatype MessageType = USER | BOT

record user =
  u_id :: int
  u_username :: string
  u_display_name :: string
  u_created_at :: int
  u_is_active :: bool

record conversation =
  c_id :: int
  c_title :: string
  c_user_id :: int
  c_created_at :: int
  c_updated_at :: int
  c_is_active :: bool

record message =
  m_id :: int
  m_content :: string
  m_message_type :: MessageType
  m_conversation_id :: int
  m_created_at :: int
  m_response_time_ms :: "int option"
  m_model_used :: "string option"

text \<open>
  The schemas \<open>UserCreate\<close>, \<open>ConversationCreate\<close> and \<open>MessageCreate\<close> are not tables:
  building one validates the \<open>max_length\<close> of its fields and raises otherwise.
\<close>

definition UserCreate_valid :: "string \<Rightarrow> string \<Rightarrow> bool" where
  "UserCreate_valid username display_name =
     (length username \<le> 100 \<and> length display_name \<le> 200)"

definition ConversationCreate_valid :: "string \<Rightarrow> bool" where
  "ConversationCreate_valid title = (length title \<le> 500)"

definition MessageCreate_valid :: "string \<Rightarrow> string option \<Rightarrow> bool" where
  "MessageCreate_valid content model_used =
     (length content \<le> 5000
      \<and> (case model_used of None \<Rightarrow> True | Some m \<Rightarrow> length m \<le> 100))"

section \<open>The store and its surroundings\<close>

text \<open>
  Modelled from the spec: the session and the store behind \<open>app.database\<close>
  (\<open>get_session\<close>, \<open>reset_db\<close>), which are not among the sources. The store holds the
  three tables of the spec's logical schema, each a list of rows in insertion order. A
  commit either applies what the session holds or raises and applies nothing: it raises on
  a storage fault and when an inserted row breaks a foreign key of the schema. A new row
  gets a primary key above every key of its table. A select yields the matching rows in an
  order of the engine's choosing; \<open>ORDER BY\<close> then sorts them on its key and fixes nothing
  about rows with equal keys.

  What the program reads from outside is the environment: \<open>utcnow e k\<close> is what the
  \<open>k\<close>-th call of \<open>datetime.utcnow()\<close> returns, \<open>commit_fault e k\<close> says whether the \<open>k\<close>-th
  commit meets a storage fault, and the two scan functions give the engine's order of the
  selected rows. For messages that order may depend on the limit the query carries: a
  sort that keeps only the first rows need not leave rows with equal keys the way a full
  sort does. The world counts the clock readings and the commits made so far.
\<close>

record env =
  utcnow :: "nat \<Rightarrow> int"
  commit_fault :: "nat \<Rightarrow> bool"
  scan_conversations :: "conversation list \<Rightarrow> conversation list"
  scan_messages :: "nat option \<Rightarrow> message list \<Rightarrow> message list"

record world =
  users :: "user list"
  conversations :: "conversation list"
  messages :: "message list"
  clock_reads :: nat
  commits :: nat

definition reset_db :: world where
  "reset_db = \<lparr>users = [], conversations = [], messages = [], clock_reads = 0, commits = 0\<rparr>"

definition read_clock :: "env \<Rightarrow> world \<Rightarrow> int" where
  "read_clock e w = utcnow e (clock_reads w)"

definition tick :: "world \<Rightarrow> world" where
  "tick w = w\<lparr>clock_reads := Suc (clock_reads w)\<rparr>"

definition faulty :: "env \<Rightarrow> world \<Rightarrow> bool" where
  "faulty e w = commit_fault e (commits w)"

definition count_commit :: "world \<Rightarrow> world" where
  "count_commit w = w\<lparr>commits := Suc (commits w)\<rparr>"

definition next_id :: "int list \<Rightarrow> int" where
  "next_id ids = fold max ids 0 + 1"

definition get_user :: "world \<Rightarrow> int \<Rightarrow> user option" where
  "get_user w user_id = find (\<lambda>u. u_id u = user_id) (users w)"

definition store_conversation :: "world \<Rightarrow> conversation \<Rightarrow> world" where
  "store_conversation w c =
     w\<lparr>conversations := map (\<lambda>x. if c_id x = c_id c then c else x) (conversations w)\<rparr>"

definition order_by_asc :: "('a \<Rightarrow> int) \<Rightarrow> 'a list \<Rightarrow> 'a list" where
  "order_by_asc key rows = sort_key key rows"

definition order_by_desc :: "('a \<Rightarrow> int) \<Rightarrow> 'a list \<Rightarrow> 'a list" where
  "order_by_desc key rows = rev (sort_key key rows)"

text \<open>The engine may yield the selected rows in any order, but it yields exactly them.\<close>

definition yields_all :: "('a list \<Rightarrow> 'a list) \<Rightarrow> bool" where
  "yields_all scan = (\<forall>rows. mset (scan rows) = mset rows)"

definition same_tables :: "world \<Rightarrow> world \<Rightarrow> bool" where
  "same_tables w w' =
     (users w' = users w \<and> conversations w' = conversations w \<and> messages w' = messages w)"

section \<open>The persistence service (app/conversation\_service.py)\<close>

text \<open>
  Each operation takes the world and returns the new world with its result. \<open>None\<close> (or
  \<open>False\<close>, or the empty list) is what the operation returns from its \<open>except\<close> clause.
\<close>

definition get_or_create_user ::
  "env \<Rightarrow> world \<Rightarrow> string \<Rightarrow> string option \<Rightarrow> world \<times> user option" where
  "get_or_create_user e w username display_name =
     (case find (\<lambda>u. u_username u = username) (users w) of
        Some user \<Rightarrow> (w, Some user)
      | None \<Rightarrow>
          let shown = (case display_name of
                         None \<Rightarrow> username
                       | Some d \<Rightarrow> if d = [] then username else d)
          in if \<not> UserCreate_valid username shown then (w, None)
             else
               let user = \<lparr>u_id = next_id (map u_id (users w)), u_username = username,
                            u_display_name = shown, u_created_at = read_clock e w,
                            u_is_active = True\<rparr>;
                   w1 = tick w;
                   w2 = count_commit w1
               in if faulty e w1 then (w2, None)
                  else (w2\<lparr>users := users w2 @ [user]\<rparr>, Some user))"

definition create_conversation ::
  "env \<Rightarrow> world \<Rightarrow> int \<Rightarrow> string option \<Rightarrow> world \<times> conversation option" where
  "create_conversation e w user_id title =
     (let named = (case title of
                     None \<Rightarrow> ''New Conversation''
                   | Some t \<Rightarrow> if t = [] then ''New Conversation'' else t)
      in if \<not> ConversationCreate_valid named then (w, None)
         else
           let conversation =
                 \<lparr>c_id = next_id (map c_id (conversations w)), c_title = named,
                  c_user_id = user_id, c_created_at = read_clock e w,
                  c_updated_at = read_clock e (tick w), c_is_active = True\<rparr>;
               w1 = tick (tick w);
               w2 = count_commit w1
           in if faulty e w1 \<or> get_user w1 user_id = None then (w2, None)
              else (w2\<lparr>conversations := conversations w2 @ [conversation]\<rparr>,
                    Some conversation))"

definition get_conversation :: "world \<Rightarrow> int \<Rightarrow> conversation option" where
  "get_conversation w conversation_id =
     find (\<lambda>c. c_id c = conversation_id) (conversations w)"

definition get_user_conversations ::
  "env \<Rightarrow> world \<Rightarrow> int \<Rightarrow> bool \<Rightarrow> conversation list" where
  "get_user_conversations e w user_id active_only =
     order_by_desc c_updated_at
       (scan_conversations e
          (filter (\<lambda>c. c_user_id c = user_id \<and> (if active_only then c_is_active c else True))
             (conversations w)))"

definition create_message ::
  "env \<Rightarrow> world \<Rightarrow> string \<Rightarrow> MessageType \<Rightarrow> int \<Rightarrow> int option \<Rightarrow> string option
     \<Rightarrow> world \<times> message option" where
  "create_message e w content message_type conversation_id response_time_ms model_used =
     (if \<not> MessageCreate_valid content model_used then (w, None)
      else
        let message =
              \<lparr>m_id = next_id (map m_id (messages w)), m_content = content,
               m_message_type = message_type, m_conversation_id = conversation_id,
               m_created_at = read_clock e w, m_response_time_ms = response_time_ms,
               m_model_used = model_used\<rparr>;
            w1 = tick w;
            w2 = count_commit w1
        in if faulty e w1 \<or> get_conversation w1 conversation_id = None then (w2, None)
           else
             let w3 = w2\<lparr>messages := messages w2 @ [message]\<rparr>
             in case get_conversation w3 conversation_id of
                  None \<Rightarrow> (w3, Some message)
                | Some conversation \<Rightarrow>
                    let touched = conversation\<lparr>c_updated_at := read_clock e w3\<rparr>;
                        w4 = tick w3;
                        w5 = count_commit w4
                    in if faulty e w4 then (w5, None)
                       else (store_conversation w5 touched, Some message))"

text \<open>
  The limit is a natural number here: what a negative \<open>LIMIT\<close> does is the engine's
  business. \<open>if limit:\<close> takes neither \<open>None\<close> nor 0, so \<open>applied\<close> is the limit the
  statement carries in the end.
\<close>

definition get_conversation_messages ::
  "env \<Rightarrow> world \<Rightarrow> int \<Rightarrow> nat option \<Rightarrow> message list" where
  "get_conversation_messages e w conversation_id limit =
     (let applied = (case limit of
                       None \<Rightarrow> None
                     | Some n \<Rightarrow> if n = 0 then None else Some n);
          rows = order_by_asc m_created_at
                   (scan_messages e applied
                      (filter (\<lambda>m. m_conversation_id m = conversation_id) (messages w)))
      in case applied of
           None \<Rightarrow> rows
         | Some n \<Rightarrow> take n rows)"

definition update_conversation_title ::
  "env \<Rightarrow> world \<Rightarrow> int \<Rightarrow> string \<Rightarrow> world \<times> conversation option" where
  "update_conversation_title e w conversation_id title =
     (case get_conversation w conversation_id of
        None \<Rightarrow> (w, None)
      | Some conversation \<Rightarrow>
          let renamed = conversation\<lparr>c_title := title, c_updated_at := read_clock e w\<rparr>;
              w1 = tick w;
              w2 = count_commit w1
          in if faulty e w1 then (w2, None)
             else (store_conversation w2 renamed, Some renamed))"

definition delete_conversation :: "env \<Rightarrow> world \<Rightarrow> int \<Rightarrow> world \<times> bool" where
  "delete_conversation e w conversation_id =
     (case get_conversation w conversation_id of
        None \<Rightarrow> (w, False)
      | Some conversation \<Rightarrow>
          let removed = conversation\<lparr>c_is_active := False, c_updated_at := read_clock e w\<rparr>;
              w1 = tick w;
              w2 = count_commit w1
          in if faulty e w1 then (w2, False)
             else (store_conversation w2 removed, True))"

section \<open>The orchestrator (app/chatbot\_service.py, app/chatbot.py)\<close>

definition model_name :: string where
  "model_name = ''simple-chatbot-v1.0''"

definition error_reply :: string where
  "error_reply =
     ''I'm sorry, I encountered an error while processing your message. Please try again.''"

definition create_bot_message ::
  "env \<Rightarrow> world \<Rightarrow> string \<Rightarrow> int \<Rightarrow> int option \<Rightarrow> world \<times> message option" where
  "create_bot_message e w content conversation_id response_time_ms =
     (if \<not> MessageCreate_valid content (Some model_name) then (w, None)
      else
        let message =
              \<lparr>m_id = next_id (map m_id (messages w)), m_content = content,
               m_message_type = BOT, m_conversation_id = conversation_id,
               m_created_at = read_clock e w, m_response_time_ms = response_time_ms,
               m_model_used = Some model_name\<rparr>;
            w1 = tick w;
            w2 = count_commit w1
        in if faulty e w1 \<or> get_conversation w1 conversation_id = None then (w2, None)
           else (w2\<lparr>messages := messages w2 @ [message]\<rparr>, Some message))"

text \<open>
  \<open>process_user_message\<close> runs the generator and the save of its reply inside a \<open>try\<close>,
  and its \<open>except\<close> clause saves and returns a fixed reply instead. \<open>create_bot_message\<close>
  catches what it raises itself, so the clause is entered when the generation step
  raises; \<open>raised\<close> says whether it does. \<open>generate_response\<close> raises nothing on a
  \<open>str\<close>, so \<open>raised\<close> stands for a failure from outside the generator's code: an
  argument that is no \<open>str\<close>, exhausted memory. The random draw \<open>r\<close> and the measured
  time \<open>elapsed_ms\<close> come from outside as well.
\<close>

definition process_user_message ::
  "env \<Rightarrow> world \<Rightarrow> bool \<Rightarrow> nat \<Rightarrow> int \<Rightarrow> string \<Rightarrow> int \<Rightarrow> world \<times> message option" where
  "process_user_message e w raised r elapsed_ms user_message conversation_id =
     (if raised then create_bot_message e w error_reply conversation_id None
      else create_bot_message e w (generate_response r user_message) conversation_id
             (Some elapsed_ms))"

text \<open>\<open>split s\<close> is Python's \<open>s.split()\<close>: the maximal runs without white space.\<close>

fun split_from :: "string \<Rightarrow> string \<Rightarrow> string list" where
  "split_from word [] = (if word = [] then [] else [word])"
| "split_from word (c # cs) =
     (if isspace c then (if word = [] then split_from [] cs else word # split_from [] cs)
      else split_from (word @ [c]) cs)"

definition split :: "string \<Rightarrow> string list" where
  "split s = split_from [] s"

fun join :: "string \<Rightarrow> string list \<Rightarrow> string" where
  "join sep [] = []"
| "join sep [x] = x"
| "join sep (x # y # ys) = x @ sep @ join sep (y # ys)"

definition title_from :: "string \<Rightarrow> string" where
  "title_from content =
     (let new_title = join '' '' (take 4 (split (strip content)))
      in if length new_title > 50 then take 47 new_title @ ''...'' else new_title)"

text \<open>
  \<open>send_message\<close> of the chat page is the turn of the spec: it saves the user's message,
  asks for the reply and renames a conversation still called \<open>New Chat\<close>. The page keeps
  its own copy of the current conversation; the function returns the world, that copy and
  the reply it got. The copy is a row read from the store, so its \<open>id\<close> is never \<open>None\<close>
  and the return for that case has no branch here. What the function draws on the page
  is left out.
\<close>

definition send_message ::
  "env \<Rightarrow> world \<Rightarrow> conversation option \<Rightarrow> bool \<Rightarrow> nat \<Rightarrow> int \<Rightarrow> string
     \<Rightarrow> world \<times> conversation option \<times> message option" where
  "send_message e w current_conversation raised r elapsed_ms content =
     (case current_conversation of
        None \<Rightarrow> (w, None, None)
      | Some current \<Rightarrow>
          if strip content = [] then (w, Some current, None)
          else
            case create_message e w (strip content) USER (c_id current) None None of
              (w1, None) \<Rightarrow> (w1, Some current, None)
            | (w1, Some user_message) \<Rightarrow>
                (case process_user_message e w1 raised r elapsed_ms (strip content)
                        (c_id current) of
                   (w2, None) \<Rightarrow> (w2, Some current, None)
                 | (w2, Some bot_message) \<Rightarrow>
                     if c_title current = ''New Chat''
                     then (fst (update_conversation_title e w2 (c_id current)
                                  (title_from content)),
                           Some (current\<lparr>c_title := title_from content\<rparr>),
                           Some bot_message)
                     else (w2, Some current, Some bot_message)))"

section \<open>Sequences of operations\<close>

text \<open>The operations the page and the tests call, and a run of them from a store.\<close>

datatype op =
    GetOrCreateUser string "string option"
  | CreateConversation int "string option"
  | CreateMessage string MessageType int "int option" "string option"
  | UpdateConversationTitle int string
  | DeleteConversation int
  | ProcessUserMessage bool nat int string int
  | SendMessage "conversation option" bool nat int string

fun step :: "env \<Rightarrow> world \<Rightarrow> op \<Rightarrow> world" where
  "step e w (GetOrCreateUser username display_name) =
     fst (get_or_create_user e w username display_name)"
| "step e w (CreateConversation user_id title) = fst (create_conversation e w user_id title)"
| "step e w (CreateMessage content mt cid rt mu) = fst (create_message e w content mt cid rt mu)"
| "step e w (UpdateConversationTitle cid title) = fst (update_conversation_title e w cid title)"
| "step e w (DeleteConversation cid) = fst (delete_conversation e w cid)"
| "step e w (ProcessUserMessage raised r ms user_message cid) =
     fst (process_user_message e w raised r ms user_message cid)"
| "step e w (SendMessage current raised r ms content) =
     fst (send_message e w current raised r ms content)"

definition run :: "env \<Rightarrow> world \<Rightarrow> op list \<Rightarrow> world" where
  "run e w ops = foldl (step e) w ops"

text \<open>
  The clock is monotone when a later reading is never below an earlier one. A store is
  not ahead of the clock when no \<open>updated_at\<close> in it is above the next reading.
  \<open>older xs ys\<close> says that the rows of \<open>xs\<close> are still there in \<open>ys\<close>, in their
  places, with an \<open>updated_at\<close> that did not decrease.
\<close>

definition clock_monotone :: "env \<Rightarrow> bool" where
  "clock_monotone e = (\<forall>i j. i \<le> j \<longrightarrow> utcnow e i \<le> utcnow e j)"

definition not_ahead :: "env \<Rightarrow> world \<Rightarrow> bool" where
  "not_ahead e w = (\<forall>c \<in> set (conversations w). c_updated_at c \<le> utcnow e (clock_reads w))"

fun older :: "conversation list \<Rightarrow> conversation list \<Rightarrow> bool" where
  "older [] ys = True"
| "older (x # xs) [] = False"
| "older (x # xs) (y # ys) =
     (c_id x = c_id y \<and> c_updated_at x \<le> c_updated_at y \<and> older xs ys)"

definition good_step :: "env \<Rightarrow> world \<Rightarrow> world \<Rightarrow> bool" where
  "good_step e w w' =
     (not_ahead e w \<longrightarrow> not_ahead e w' \<and> older (conversations w) (conversations w'))"

section \<open>Concrete environments and stores\<close>

text \<open>
  \<open>env_ok\<close> has a clock that advances by one at each reading, no storage fault and an
  engine that yields rows in insertion order. \<open>env_touch_fails\<close> differs in that the
  second commit meets a storage fault. \<open>env_rev_scan\<close> differs in that the engine yields
  the selected messages in reverse insertion order. \<open>env_top_two\<close> has a clock too
  coarse to tell two readings apart and an engine that yields the selected messages in
  insertion order for a query without a limit and with the first two swapped for a query
  with a limit, as a heap that keeps the first two rows leaves them.
\<close>

definition env_ok :: env where
  "env_ok = \<lparr>utcnow = (\<lambda>k. 1000 + int k), commit_fault = (\<lambda>k. False),
             scan_conversations = (\<lambda>rows. rows),
             scan_messages = (\<lambda>limit rows. rows)\<rparr>"

definition env_touch_fails :: env where
  "env_touch_fails = env_ok\<lparr>commit_fault := (\<lambda>k. k = 1)\<rparr>"

definition env_rev_scan :: env where
  "env_rev_scan = env_ok\<lparr>scan_messages := (\<lambda>limit rows. rev rows)\<rparr>"

fun swap_first_two :: "'a list \<Rightarrow> 'a list" where
  "swap_first_two (a # b # rest) = b # a # rest"
| "swap_first_two rows = rows"

definition env_top_two :: env where
  "env_top_two =
     \<lparr>utcnow = (\<lambda>k. 1000), commit_fault = (\<lambda>k. False),
      scan_conversations = (\<lambda>rows. rows),
      scan_messages = (\<lambda>limit rows. case limit of
                                         None \<Rightarrow> rows
                                       | Some n \<Rightarrow> swap_first_two rows)\<rparr>"

definition alice :: user where
  "alice = \<lparr>u_id = 1, u_username = ''alice'', u_display_name = ''Alice'',
            u_created_at = 10, u_is_active = True\<rparr>"

definition test_chat :: conversation where
  "test_chat = \<lparr>c_id = 1, c_title = ''Test Chat'', c_user_id = 1, c_created_at = 20,
                c_updated_at = 20, c_is_active = True\<rparr>"

definition world_test_chat :: world where
  "world_test_chat = \<lparr>users = [alice], conversations = [test_chat], messages = [],
                      clock_reads = 0, commits = 0\<rparr>"

text \<open>
  The store after three messages were added to the conversation under the advancing
  clock, and the store after five were added under the coarse clock.
\<close>

definition world_three_messages :: world where
  "world_three_messages =
     run env_ok world_test_chat
       [CreateMessage ''a'' USER 1 None None, CreateMessage ''b'' USER 1 None None,
        CreateMessage ''c'' USER 1 None None]"

definition world_five_tied :: world where
  "world_five_tied =
     run env_top_two world_test_chat
       [CreateMessage ''m1'' USER 1 None None, CreateMessage ''m2'' USER 1 None None,
        CreateMessage ''m3'' USER 1 None None, CreateMessage ''m4'' USER 1 None None,
        CreateMessage ''m5'' USER 1 None None]"

text \<open>The store after the conversation was soft-deleted.\<close>

definition world_deleted_chat :: world where
  "world_deleted_chat = fst (delete_conversation env_ok world_test_chat 1)"

text \<open>
  \<open>env_bot_save_fails\<close> has a storage fault at the third commit, the one that saves the
  reply of a turn. \<open>world_hello_saved\<close> is the store once the user's \<open>Hello\<close> is saved.
\<close>

definition env_bot_save_fails :: env where
  "env_bot_save_fails = env_ok\<lparr>commit_fault := (\<lambda>k. k = 2)\<rparr>"

definition hello_message :: message where
  "hello_message = \<lparr>m_id = 1, m_content = ''Hello'', m_message_type = USER,
                    m_conversation_id = 1, m_created_at = 1000, m_response_time_ms = None,
                    m_model_used = None\<rparr>"

definition world_hello_saved :: world where
  "world_hello_saved =
     fst (create_message env_ok world_test_chat ''Hello'' USER 1 None None)"

section \<open>Properties of the response generator\<close>

lemma choice_in_set: "xs \<noteq> [] \<Longrightarrow> choice r xs \<in> set xs"
  by (simp add: choice_def)

lemma question_reply_in_category:
  "question_reply r s \<in> set question_category_replies"
proof -
  have "choice r question_responses \<in> set question_responses"
    by (rule choice_in_set) (simp add: question_responses_def)
  then show ?thesis
    by (simp add: question_reply_def question_category_replies_def)
qed

lemma question_replies_are_no_greetings:
  "set question_category_replies \<inter> set greeting_responses = {}"
  by (simp add: question_category_replies_def greeting_responses_def question_responses_def
      how_are_you_response_def name_response_def weather_response_def time_response_def)

text \<open>
  C1, as stated, fails: the greeting test comes first in \<open>generate_response\<close>, so an
  input that ends with a question mark and contains a greeting keyword gets a greeting
  reply. \<open>Hello?\<close> is such an input.
\<close>

theorem C1_greeting_wins_over_question:
  "endswith (strip (lower ''Hello?'')) ''?''
   \<and> generate_response 0 ''Hello?'' \<in> set greeting_responses"
  by code_simp

text \<open>
  C1, amended: an input whose trimmed, lower-cased form contains a greeting keyword gets
  a greeting reply, also when it ends with a question mark. An input whose trimmed,
  lower-cased form ends with a question mark and contains no greeting keyword gets the
  reply of the question branch, which is one of the seven question replies and none of
  the four greeting replies, whatever keywords of the later categories it contains.
\<close>

theorem C1_question_after_greeting_only:
  "(any_in greeting_keywords (strip (lower x))
      \<longrightarrow> generate_response r x \<in> set greeting_responses)
   \<and> (endswith (strip (lower x)) ''?'' \<and> \<not> any_in greeting_keywords (strip (lower x))
      \<longrightarrow> generate_response r x = question_reply r (strip (lower x))
        \<and> generate_response r x \<in> set question_category_replies
        \<and> generate_response r x \<notin> set greeting_responses)"
proof (intro conjI impI)
  assume "any_in greeting_keywords (strip (lower x))"
  moreover have "choice r greeting_responses \<in> set greeting_responses"
    by (rule choice_in_set) (simp add: greeting_responses_def)
  ultimately show "generate_response r x \<in> set greeting_responses"
    by (simp add: generate_response_def)
next
  assume q: "endswith (strip (lower x)) ''?'' \<and> \<not> any_in greeting_keywords (strip (lower x))"
  then show eq: "generate_response r x = question_reply r (strip (lower x))"
    by (simp add: generate_response_def)
  show "generate_response r x \<in> set question_category_replies"
    unfolding eq by (rule question_reply_in_category)
  with question_replies_are_no_greetings
  show "generate_response r x \<notin> set greeting_responses"
    by blast
qed

theorem C1_question_after_greeting_only_witness:
  "any_in greeting_keywords (strip (lower ''Hello?''))
   \<and> generate_response 3 ''Hello?'' \<in> set greeting_responses
   \<and> endswith (strip (lower ''Why am I sad?'')) ''?''
   \<and> \<not> any_in greeting_keywords (strip (lower ''Why am I sad?''))
   \<and> any_in negative_keywords (strip (lower ''Why am I sad?''))
   \<and> generate_response 3 ''Why am I sad?'' \<in> set question_category_replies
   \<and> generate_response 3 ''Why am I sad?'' \<notin> set greeting_responses"
proof -
  have g: "any_in greeting_keywords (strip (lower ''Hello?''))"
    by code_simp
  have q: "endswith (strip (lower ''Why am I sad?'')) ''?''
           \<and> \<not> any_in greeting_keywords (strip (lower ''Why am I sad?''))"
    by code_simp
  have n: "any_in negative_keywords (strip (lower ''Why am I sad?''))"
    by code_simp
  show ?thesis
    using C1_question_after_greeting_only [of "''Hello?''" 3]
      C1_question_after_greeting_only [of "''Why am I sad?''" 3] g q n
    by blast
qed

text \<open>
  C9: \<open>Hello\<close> always gets one of the four greeting replies; the empty input and the
  input of three spaces trim to the empty string, which matches no keyword list and does
  not end with a question mark, and always get one of the six fallback replies, none of
  which is empty.
\<close>

theorem C9_hello_and_blank_inputs:
  "generate_response r ''Hello'' \<in> set greeting_responses
   \<and> length greeting_responses = 4 \<and> distinct greeting_responses
   \<and> strip (lower []) = [] \<and> strip (lower ''   '') = []
   \<and> \<not> any_in greeting_keywords [] \<and> \<not> endswith [] ''?''
   \<and> \<not> any_in negative_keywords [] \<and> \<not> any_in positive_keywords []
   \<and> \<not> any_in help_keywords [] \<and> \<not> any_in thanks_keywords []
   \<and> \<not> any_in goodbye_keywords []
   \<and> generate_response r [] \<in> set default_responses
   \<and> generate_response r ''   '' \<in> set default_responses
   \<and> length default_responses = 6 \<and> [] \<notin> set default_responses"
proof -
  have hello: "any_in greeting_keywords (strip (lower ''Hello''))"
    by code_simp
  have g: "choice r greeting_responses \<in> set greeting_responses"
    by (rule choice_in_set) (simp add: greeting_responses_def)
  have 1: "generate_response r ''Hello'' \<in> set greeting_responses"
    using hello g by (simp add: generate_response_def)
  have 2: "length greeting_responses = 4 \<and> distinct greeting_responses"
    by (simp add: greeting_responses_def)
  have e: "strip (lower []) = []"
    by code_simp
  have b: "strip (lower ''   '') = []"
    by code_simp
  have no: "\<not> any_in greeting_keywords [] \<and> \<not> endswith [] ''?''
     \<and> \<not> any_in negative_keywords [] \<and> \<not> any_in positive_keywords []
     \<and> \<not> any_in help_keywords [] \<and> \<not> any_in thanks_keywords []
     \<and> \<not> any_in goodbye_keywords []"
    by code_simp
  have d: "choice r default_responses \<in> set default_responses"
    by (rule choice_in_set) (simp add: default_responses_def)
  have 3: "generate_response r [] = choice r default_responses"
    using no by (simp add: generate_response_def e)
  have 4: "generate_response r ''   '' = choice r default_responses"
    using no by (simp add: generate_response_def b)
  have 5: "length default_responses = 6 \<and> [] \<notin> set default_responses"
    by (simp add: default_responses_def)
  show ?thesis
    using 1 2 e b no d 3 4 5 by simp
qed

section \<open>Properties of the persistence service and the orchestrator\<close>

lemma tables_tick [simp]:
  "users (tick w) = users w" "conversations (tick w) = conversations w"
  "messages (tick w) = messages w" "commits (tick w) = commits w"
  "clock_reads (tick w) = Suc (clock_reads w)"
  by (simp_all add: tick_def)

lemma tables_count_commit [simp]:
  "users (count_commit w) = users w" "conversations (count_commit w) = conversations w"
  "messages (count_commit w) = messages w" "commits (count_commit w) = Suc (commits w)"
  "clock_reads (count_commit w) = clock_reads w"
  by (simp_all add: count_commit_def)

lemma get_conversation_steps [simp]:
  "get_conversation (tick w) cid = get_conversation w cid"
  "get_conversation (count_commit w) cid = get_conversation w cid"
  "get_conversation (w\<lparr>messages := ms\<rparr>) cid = get_conversation w cid"
  by (simp_all add: get_conversation_def)

lemma create_message_unknown:
  assumes "get_conversation w cid = None"
  shows "snd (create_message e w content mt cid rt mu) = None
         \<and> same_tables w (fst (create_message e w content mt cid rt mu))"
  using assms by (simp add: create_message_def Let_def same_tables_def)

lemma create_bot_message_unknown:
  assumes "get_conversation w cid = None"
  shows "snd (create_bot_message e w content cid rt) = None
         \<and> same_tables w (fst (create_bot_message e w content cid rt))"
  using assms by (simp add: create_bot_message_def Let_def same_tables_def)

text \<open>
  C2: when the conversation id names no conversation of the store, \<open>create_message\<close>
  returns \<open>None\<close> and leaves the three tables as they were; so do
  \<open>process_user_message\<close> and a whole turn of \<open>send_message\<close> whose current conversation
  carries that id.
\<close>

theorem C2_unknown_conversation:
  assumes "get_conversation w cid = None"
  shows "snd (create_message e w content mt cid rt mu) = None
         \<and> same_tables w (fst (create_message e w content mt cid rt mu))
         \<and> snd (process_user_message e w raised r ms content cid) = None
         \<and> same_tables w (fst (process_user_message e w raised r ms content cid))
         \<and> (c_id current = cid \<longrightarrow>
              snd (snd (send_message e w (Some current) raised r ms content)) = None
              \<and> same_tables w (fst (send_message e w (Some current) raised r ms content)))"
proof -
  have cm: "\<And>content mt rt mu. snd (create_message e w content mt cid rt mu) = None
         \<and> same_tables w (fst (create_message e w content mt cid rt mu))"
    using assms by (rule create_message_unknown)
  have pm: "snd (process_user_message e w raised r ms content cid) = None
         \<and> same_tables w (fst (process_user_message e w raised r ms content cid))"
    using create_bot_message_unknown [OF assms] by (simp add: process_user_message_def)
  have sm: "c_id current = cid \<longrightarrow>
              snd (snd (send_message e w (Some current) raised r ms content)) = None
              \<and> same_tables w (fst (send_message e w (Some current) raised r ms content))"
  proof
    assume c: "c_id current = cid"
    obtain w1 res where eq: "create_message e w (strip content) USER cid None None = (w1, res)"
      by (cases "create_message e w (strip content) USER cid None None")
    with cm [of "strip content" USER None None] have "res = None" "same_tables w w1"
      by simp_all
    then show "snd (snd (send_message e w (Some current) raised r ms content)) = None
              \<and> same_tables w (fst (send_message e w (Some current) raised r ms content))"
      using c eq by (simp add: send_message_def same_tables_def)
  qed
  from cm pm sm show ?thesis by blast
qed

theorem C2_unknown_conversation_witness:
  "get_conversation world_test_chat 99999 = None
   \<and> snd (create_message env_ok world_test_chat ''Test'' USER 99999 None None) = None
   \<and> same_tables world_test_chat
        (fst (create_message env_ok world_test_chat ''Test'' USER 99999 None None))
   \<and> snd (process_user_message env_ok world_test_chat False 0 3 ''Hello'' 99999) = None
   \<and> same_tables world_test_chat
        (fst (process_user_message env_ok world_test_chat False 0 3 ''Hello'' 99999))
   \<and> snd (snd (send_message env_ok world_test_chat (Some (test_chat\<lparr>c_id := 99999\<rparr>))
                  False 0 3 ''Hello'')) = None
   \<and> same_tables world_test_chat
        (fst (send_message env_ok world_test_chat (Some (test_chat\<lparr>c_id := 99999\<rparr>))
                False 0 3 ''Hello''))"
proof -
  have h: "get_conversation world_test_chat 99999 = None"
    by (simp add: get_conversation_def world_test_chat_def test_chat_def)
  show ?thesis
    using h C2_unknown_conversation [OF h, of env_ok "''Test''" USER None None False 0 3
        "test_chat\<lparr>c_id := 99999\<rparr>"]
      C2_unknown_conversation [OF h, of env_ok "''Hello''" USER None None False 0 3
        "test_chat\<lparr>c_id := 99999\<rparr>"]
    by simp
qed


lemma find_id_Some:
  "find (\<lambda>c. c_id c = cid) xs = Some c \<Longrightarrow> c_id c = cid \<and> c \<in> set xs"
  by (induction xs) (auto split: if_splits)

lemma get_conversation_Some:
  "get_conversation w cid = Some c \<Longrightarrow> c_id c = cid \<and> c \<in> set (conversations w)"
  unfolding get_conversation_def by (rule find_id_Some)

lemma find_after_replace:
  "find (\<lambda>c. c_id c = cid) xs = Some c \<Longrightarrow> c_id c' = cid \<Longrightarrow>
   find (\<lambda>c. c_id c = cid) (map (\<lambda>x. if c_id x = cid then c' else x) xs) = Some c'"
  by (induction xs) (auto split: if_splits)

lemma get_after_store:
  "get_conversation w cid = Some c \<Longrightarrow> c_id c' = cid \<Longrightarrow>
   get_conversation (store_conversation w c') cid = Some c'"
  unfolding get_conversation_def store_conversation_def by (simp add: find_after_replace)

lemma tables_store_conversation [simp]:
  "users (store_conversation w c) = users w"
  "messages (store_conversation w c) = messages w"
  "clock_reads (store_conversation w c) = clock_reads w"
  "commits (store_conversation w c) = commits w"
  by (simp_all add: store_conversation_def)

text \<open>
  C3, amended: \<open>create_message\<close> commits twice, first the insert of the message and
  then the touch of the conversation's \<open>updated_at\<close>. When the insert fails (invalid
  fields, a storage fault at the first commit, an unknown conversation) the call returns
  \<open>None\<close> and the tables are unchanged. When the insert commits and the second commit
  meets a storage fault, the call returns \<open>None\<close>, the message row is in the store and
  the conversations are as before the call. When both commit, the call returns the
  message, the row is in the store and \<open>updated_at\<close> is the second clock reading.
\<close>

theorem C3_insert_then_touch:
  "let m = \<lparr>m_id = next_id (map m_id (messages w)), m_content = content,
             m_message_type = mt, m_conversation_id = cid,
             m_created_at = utcnow e (clock_reads w), m_response_time_ms = rt,
             m_model_used = mu\<rparr>;
       insert_fails = (\<not> MessageCreate_valid content mu \<or> commit_fault e (commits w)
                        \<or> get_conversation w cid = None);
       touch_fails = commit_fault e (Suc (commits w));
       res = snd (create_message e w content mt cid rt mu);
       w' = fst (create_message e w content mt cid rt mu)
   in (insert_fails \<longrightarrow> res = None \<and> same_tables w w')
    \<and> (\<not> insert_fails \<and> touch_fails \<longrightarrow>
          res = None \<and> messages w' = messages w @ [m] \<and> conversations w' = conversations w)
    \<and> (\<not> insert_fails \<and> \<not> touch_fails \<longrightarrow>
          res = Some m \<and> messages w' = messages w @ [m]
          \<and> (\<exists>c. get_conversation w cid = Some c
                \<and> get_conversation w' cid
                    = Some (c\<lparr>c_updated_at := utcnow e (Suc (clock_reads w))\<rparr>)))"
proof -
  have 1: "\<not> MessageCreate_valid content mu \<or> commit_fault e (commits w)
            \<or> get_conversation w cid = None
          \<Longrightarrow> snd (create_message e w content mt cid rt mu) = None
              \<and> same_tables w (fst (create_message e w content mt cid rt mu))"
    by (auto simp add: create_message_def Let_def same_tables_def faulty_def)
  show ?thesis
    unfolding Let_def
  proof (intro conjI impI)
    assume "\<not> MessageCreate_valid content mu \<or> commit_fault e (commits w)
            \<or> get_conversation w cid = None"
    from 1 [OF this] show "snd (create_message e w content mt cid rt mu) = None"
      and "same_tables w (fst (create_message e w content mt cid rt mu))" by simp_all
  next
    assume a: "\<not> (\<not> MessageCreate_valid content mu \<or> commit_fault e (commits w)
            \<or> get_conversation w cid = None) \<and> commit_fault e (Suc (commits w))"
    then obtain c where c: "get_conversation w cid = Some c" by auto
    from a c show "snd (create_message e w content mt cid rt mu) = None"
      by (simp add: create_message_def Let_def faulty_def)
    from a c show "messages (fst (create_message e w content mt cid rt mu)) = messages w @
      [\<lparr>m_id = next_id (map m_id (messages w)), m_content = content,
             m_message_type = mt, m_conversation_id = cid,
             m_created_at = utcnow e (clock_reads w), m_response_time_ms = rt,
             m_model_used = mu\<rparr>]"
      by (simp add: create_message_def Let_def faulty_def read_clock_def)
    from a c show "conversations (fst (create_message e w content mt cid rt mu)) = conversations w"
      by (simp add: create_message_def Let_def faulty_def)
  next
    assume a: "\<not> (\<not> MessageCreate_valid content mu \<or> commit_fault e (commits w)
            \<or> get_conversation w cid = None) \<and> \<not> commit_fault e (Suc (commits w))"
    then obtain c where c: "get_conversation w cid = Some c" by auto
    then have cid: "c_id c = cid" by (simp add: get_conversation_Some)
    from a c show "snd (create_message e w content mt cid rt mu) = Some
      \<lparr>m_id = next_id (map m_id (messages w)), m_content = content,
             m_message_type = mt, m_conversation_id = cid,
             m_created_at = utcnow e (clock_reads w), m_response_time_ms = rt,
             m_model_used = mu\<rparr>"
      by (simp add: create_message_def Let_def faulty_def read_clock_def)
    from a c show "messages (fst (create_message e w content mt cid rt mu)) = messages w @
      [\<lparr>m_id = next_id (map m_id (messages w)), m_content = content,
             m_message_type = mt, m_conversation_id = cid,
             m_created_at = utcnow e (clock_reads w), m_response_time_ms = rt,
             m_model_used = mu\<rparr>]"
      by (simp add: create_message_def Let_def faulty_def read_clock_def)
    from a c cid show "\<exists>c. get_conversation w cid = Some c
                \<and> get_conversation (fst (create_message e w content mt cid rt mu)) cid
                    = Some (c\<lparr>c_updated_at := utcnow e (Suc (clock_reads w))\<rparr>)"
      by (simp add: create_message_def Let_def faulty_def read_clock_def get_after_store)
  qed
qed

text \<open>
  C3, as stated, fails: with a storage fault at the second commit of the call, the store
  that had no message holds the new message row afterwards, while the parent conversation
  is the row it was before the call, its \<open>updated_at\<close> included; the call returns
  \<open>None\<close>.
\<close>

theorem C3_message_kept_without_touch:
  "get_conversation world_test_chat 1 = Some test_chat
   \<and> messages world_test_chat = []
   \<and> snd (create_message env_touch_fails world_test_chat ''Hi'' USER 1 None None) = None
   \<and> map m_content
        (messages (fst (create_message env_touch_fails world_test_chat ''Hi'' USER 1 None None)))
      = [''Hi'']
   \<and> get_conversation
        (fst (create_message env_touch_fails world_test_chat ''Hi'' USER 1 None None)) 1
      = Some test_chat"
  by code_simp


theorem C3_insert_then_touch_witness:
  "(get_conversation world_test_chat 7 = None
      \<and> snd (create_message env_ok world_test_chat ''Hi'' USER 7 None None) = None
      \<and> same_tables world_test_chat
           (fst (create_message env_ok world_test_chat ''Hi'' USER 7 None None)))
   \<and> (MessageCreate_valid ''Hi'' None \<and> get_conversation world_test_chat 1 = Some test_chat
      \<and> \<not> commit_fault env_touch_fails (commits world_test_chat)
      \<and> commit_fault env_touch_fails (Suc (commits world_test_chat))
      \<and> snd (create_message env_touch_fails world_test_chat ''Hi'' USER 1 None None) = None
      \<and> length (messages (fst (create_message env_touch_fails world_test_chat ''Hi'' USER 1
                                 None None))) = 1
      \<and> conversations (fst (create_message env_touch_fails world_test_chat ''Hi'' USER 1
                                 None None)) = [test_chat])
   \<and> (\<not> commit_fault env_ok (commits world_test_chat)
      \<and> \<not> commit_fault env_ok (Suc (commits world_test_chat))
      \<and> snd (create_message env_ok world_test_chat ''Hi'' USER 1 None None) \<noteq> None
      \<and> length (messages (fst (create_message env_ok world_test_chat ''Hi'' USER 1
                                 None None))) = 1
      \<and> get_conversation (fst (create_message env_ok world_test_chat ''Hi'' USER 1 None None)) 1
          = Some (test_chat\<lparr>c_updated_at := 1001\<rparr>))"
proof -
  have h1: "get_conversation world_test_chat 7 = None"
    by code_simp
  have h2: "MessageCreate_valid ''Hi'' None" "get_conversation world_test_chat 1 = Some test_chat"
    "\<not> commit_fault env_touch_fails (commits world_test_chat)"
    "commit_fault env_touch_fails (Suc (commits world_test_chat))"
    by code_simp+
  have h3: "\<not> commit_fault env_ok (commits world_test_chat)"
    "\<not> commit_fault env_ok (Suc (commits world_test_chat))"
    by code_simp+
  have v: "messages world_test_chat = []" "conversations world_test_chat = [test_chat]"
    "clock_reads world_test_chat = 0" "utcnow env_ok (Suc 0) = 1001"
    by (simp_all add: world_test_chat_def env_ok_def)
  show ?thesis
    using C3_insert_then_touch [of world_test_chat "''Hi''" USER 7 env_ok None None]
      C3_insert_then_touch [of world_test_chat "''Hi''" USER 1 env_touch_fails None None]
      C3_insert_then_touch [of world_test_chat "''Hi''" USER 1 env_ok None None]
      h1 h2 h3 v
    by (simp add: Let_def)
qed


lemma sorted_order_by_asc: "sorted (map key (order_by_asc key rows))"
  by (simp add: order_by_asc_def)

lemma yields_all_set: "yields_all scan \<Longrightarrow> set (scan rows) = set rows"
  unfolding yields_all_def by (metis mset_eq_setD)

lemma sorted_take_created_at:
  "sorted (map m_created_at rows) \<Longrightarrow> sorted (map m_created_at (take n rows))"
  by (simp add: take_map [symmetric] sorted_wrt_take)

lemma get_conversation_messages_unlimited:
  "get_conversation_messages e w cid None
     = order_by_asc m_created_at
         (scan_messages e None (filter (\<lambda>m. m_conversation_id m = cid) (messages w)))"
  by (simp add: get_conversation_messages_def)

lemma get_conversation_messages_zero:
  "get_conversation_messages e w cid (Some 0) = get_conversation_messages e w cid None"
  by (simp add: get_conversation_messages_def)

lemma get_conversation_messages_limited:
  "0 < n \<Longrightarrow>
   get_conversation_messages e w cid (Some n)
     = take n (order_by_asc m_created_at
                 (scan_messages e (Some n)
                    (filter (\<lambda>m. m_conversation_id m = cid) (messages w))))"
  by (simp add: get_conversation_messages_def)

text \<open>
  C4, amended: when the engine yields exactly the selected rows,
  \<open>get_conversation_messages\<close> without a limit (or with limit 0) returns exactly the
  messages of the conversation, sorted by \<open>created_at\<close> ascending. With a limit \<open>n\<close>
  above 0 it returns the first \<open>n\<close> messages of such a sorted order of them, and of the
  listing without a limit itself when the engine yields the rows alike with and without
  the limit. The query sorts on \<open>created_at\<close> alone, so the order of messages with equal
  \<open>created_at\<close> is the engine's.
\<close>

theorem C4_sorted_by_created_at:
  assumes "\<forall>l. yields_all (scan_messages e l)"
  shows "sorted (map m_created_at (get_conversation_messages e w cid limit))
         \<and> set (get_conversation_messages e w cid limit)
             \<subseteq> {m \<in> set (messages w). m_conversation_id m = cid}
         \<and> (limit = None \<or> limit = Some 0 \<longrightarrow>
              mset (get_conversation_messages e w cid limit)
                = mset (filter (\<lambda>m. m_conversation_id m = cid) (messages w)))
         \<and> (\<forall>n. limit = Some n \<and> 0 < n \<longrightarrow>
              length (get_conversation_messages e w cid limit)
                = min n (length (filter (\<lambda>m. m_conversation_id m = cid) (messages w))))
         \<and> get_conversation_messages e w cid (Some 0) = get_conversation_messages e w cid None
         \<and> (\<forall>n. 0 < n \<longrightarrow>
              (\<exists>full. mset full = mset (filter (\<lambda>m. m_conversation_id m = cid) (messages w))
                 \<and> sorted (map m_created_at full)
                 \<and> get_conversation_messages e w cid (Some n) = take n full))
         \<and> (\<forall>n. 0 < n
                 \<and> scan_messages e (Some n)
                      (filter (\<lambda>m. m_conversation_id m = cid) (messages w))
                    = scan_messages e None
                        (filter (\<lambda>m. m_conversation_id m = cid) (messages w)) \<longrightarrow>
              get_conversation_messages e w cid (Some n)
                = take n (get_conversation_messages e w cid None))"
proof -
  let ?sel = "filter (\<lambda>m. m_conversation_id m = cid) (messages w)"
  let ?rows = "\<lambda>l. order_by_asc m_created_at (scan_messages e l ?sel)"
  have srt: "\<And>l. sorted (map m_created_at (?rows l))"
    by (rule sorted_order_by_asc)
  have ms: "\<And>l. mset (?rows l) = mset ?sel"
    using assms by (simp add: order_by_asc_def yields_all_def)
  have st: "\<And>l. set (?rows l) = set ?sel"
    using ms by (rule mset_eq_setD)
  have len: "\<And>l. length (?rows l) = length ?sel"
    using ms by (rule mset_eq_length)
  note un = get_conversation_messages_unlimited [of e w cid]
  note ze = get_conversation_messages_zero [of e w cid]
  note li = get_conversation_messages_limited [of _ e w cid]
  have cases: "limit = None \<or> limit = Some 0 \<or> (\<exists>n. 0 < n \<and> limit = Some n)"
    by (cases limit) auto
  have 1: "sorted (map m_created_at (get_conversation_messages e w cid limit))"
    using cases srt sorted_take_created_at [OF srt] by (auto simp add: un ze li)
  have 2: "set (get_conversation_messages e w cid limit)
             \<subseteq> {m \<in> set (messages w). m_conversation_id m = cid}"
  proof -
    have tk: "\<And>n l. set (take n (?rows l)) \<subseteq> set ?sel"
      using st set_take_subset by fastforce
    consider "limit = None" | "limit = Some 0" | n where "0 < n" "limit = Some n"
      using cases by blast
    then have "set (get_conversation_messages e w cid limit) \<subseteq> set ?sel"
    proof cases
      case 1
      then show ?thesis using st [of None] by (simp add: un)
    next
      case 2
      then show ?thesis using st [of None] by (simp add: ze un)
    next
      case 3
      then show ?thesis using tk [of n "Some n"] by (simp only: li [OF 3(1)])
    qed
    then show ?thesis by auto
  qed
  have 3: "limit = None \<or> limit = Some 0 \<longrightarrow>
              mset (get_conversation_messages e w cid limit) = mset ?sel"
    using ms by (auto simp add: un ze)
  have 4: "\<forall>n. limit = Some n \<and> 0 < n \<longrightarrow>
              length (get_conversation_messages e w cid limit) = min n (length ?sel)"
    using len by (auto simp add: li)
  have 6: "\<forall>n. 0 < n \<longrightarrow>
              (\<exists>full. mset full = mset ?sel \<and> sorted (map m_created_at full)
                 \<and> get_conversation_messages e w cid (Some n) = take n full)"
  proof (intro allI impI)
    fix n :: nat
    assume "0 < n"
    then have "get_conversation_messages e w cid (Some n) = take n (?rows (Some n))"
      by (rule li)
    with ms [of "Some n"] srt [of "Some n"]
    show "\<exists>full. mset full = mset ?sel \<and> sorted (map m_created_at full)
                 \<and> get_conversation_messages e w cid (Some n) = take n full"
      by blast
  qed
  have 7: "\<forall>n. 0 < n \<and> scan_messages e (Some n) ?sel = scan_messages e None ?sel \<longrightarrow>
              get_conversation_messages e w cid (Some n)
                = take n (get_conversation_messages e w cid None)"
    by (simp add: un li)
  from 1 2 3 4 ze 6 7 show ?thesis by blast
qed

text \<open>
  C4, as stated, fails: five messages added one after the other under a clock that gives
  all the same reading have equal \<open>created_at\<close>, and the listing with limit 2 from an
  engine that keeps the first two rows in a heap returns the second message before the
  first, while the listing without a limit has them in insertion order.
\<close>

theorem C4_ties_not_in_insertion_order:
  "yields_all (scan_messages env_top_two None)
   \<and> yields_all (scan_messages env_top_two (Some 2))
   \<and> map m_content (messages world_five_tied) = [''m1'', ''m2'', ''m3'', ''m4'', ''m5'']
   \<and> map m_conversation_id (messages world_five_tied) = [1, 1, 1, 1, 1]
   \<and> map m_created_at (messages world_five_tied) = [1000, 1000, 1000, 1000, 1000]
   \<and> map m_content (get_conversation_messages env_top_two world_five_tied 1 None)
       = [''m1'', ''m2'', ''m3'', ''m4'', ''m5'']
   \<and> map m_content (get_conversation_messages env_top_two world_five_tied 1 (Some 2))
       = [''m2'', ''m1'']"
proof -
  have swap: "\<And>rows :: message list. mset (swap_first_two rows) = mset rows"
    by (induct_tac rows rule: swap_first_two.induct) simp_all
  have "yields_all (scan_messages env_top_two None)
        \<and> yields_all (scan_messages env_top_two (Some 2))"
    by (simp add: yields_all_def env_top_two_def swap)
  moreover have "map m_content (messages world_five_tied)
       = [''m1'', ''m2'', ''m3'', ''m4'', ''m5'']
   \<and> map m_conversation_id (messages world_five_tied) = [1, 1, 1, 1, 1]
   \<and> map m_created_at (messages world_five_tied) = [1000, 1000, 1000, 1000, 1000]
   \<and> map m_content (get_conversation_messages env_top_two world_five_tied 1 None)
       = [''m1'', ''m2'', ''m3'', ''m4'', ''m5'']
   \<and> map m_content (get_conversation_messages env_top_two world_five_tied 1 (Some 2))
       = [''m2'', ''m1'']"
    by code_simp
  ultimately show ?thesis by simp
qed

theorem C4_sorted_by_created_at_witness:
  "(\<forall>l. yields_all (scan_messages env_rev_scan l))
   \<and> map m_content (messages world_three_messages) = [''a'', ''b'', ''c'']
   \<and> map m_created_at (messages world_three_messages) = [1000, 1002, 1004]
   \<and> map m_content
        (scan_messages env_rev_scan None
           (filter (\<lambda>m. m_conversation_id m = 1) (messages world_three_messages)))
       = [''c'', ''b'', ''a'']
   \<and> scan_messages env_rev_scan (Some 2)
        (filter (\<lambda>m. m_conversation_id m = 1) (messages world_three_messages))
       = scan_messages env_rev_scan None
           (filter (\<lambda>m. m_conversation_id m = 1) (messages world_three_messages))
   \<and> sorted (map m_created_at (get_conversation_messages env_rev_scan world_three_messages 1
                                  None))
   \<and> mset (get_conversation_messages env_rev_scan world_three_messages 1 None)
       = mset (messages world_three_messages)
   \<and> get_conversation_messages env_rev_scan world_three_messages 1 (Some 0)
       = get_conversation_messages env_rev_scan world_three_messages 1 None
   \<and> get_conversation_messages env_rev_scan world_three_messages 1 (Some 2)
       = take 2 (get_conversation_messages env_rev_scan world_three_messages 1 None)
   \<and> length (get_conversation_messages env_rev_scan world_three_messages 1 (Some 2)) = 2
   \<and> map m_content (get_conversation_messages env_rev_scan world_three_messages 1 None)
       = [''a'', ''b'', ''c'']
   \<and> map m_content (get_conversation_messages env_rev_scan world_three_messages 1 (Some 2))
       = [''a'', ''b'']"
proof -
  have y: "\<forall>l. yields_all (scan_messages env_rev_scan l)"
    by (simp add: yields_all_def env_rev_scan_def)
  have f: "filter (\<lambda>m. m_conversation_id m = 1) (messages world_three_messages)
           = messages world_three_messages"
    by code_simp
  have l: "length (messages world_three_messages) = 3"
    by code_simp
  have s: "scan_messages env_rev_scan (Some 2) (messages world_three_messages)
           = scan_messages env_rev_scan None (messages world_three_messages)"
    by (simp add: env_rev_scan_def)
  have v: "map m_content (messages world_three_messages) = [''a'', ''b'', ''c'']
   \<and> map m_created_at (messages world_three_messages) = [1000, 1002, 1004]
   \<and> map m_content (scan_messages env_rev_scan None (messages world_three_messages))
       = [''c'', ''b'', ''a'']
   \<and> map m_content (get_conversation_messages env_rev_scan world_three_messages 1 None)
       = [''a'', ''b'', ''c'']
   \<and> map m_content (get_conversation_messages env_rev_scan world_three_messages 1 (Some 2))
       = [''a'', ''b'']"
    by code_simp
  have n: "length (get_conversation_messages env_rev_scan world_three_messages 1 None) = 3"
    by code_simp
  have two: "(0::nat) < 2"
    by simp
  show ?thesis
    using y f l s v n two
      C4_sorted_by_created_at [OF y, of world_three_messages 1 None]
      C4_sorted_by_created_at [OF y, of world_three_messages 1 "Some 2"]
    by (simp add: f)
qed

lemma find_appended:
  "find P xs = None \<Longrightarrow> P y \<Longrightarrow> find P (xs @ [y]) = Some y"
  by (induction xs) (auto split: if_splits)

text \<open>
  C6: when \<open>get_or_create_user\<close> returns a user for a username, the next call for that
  username returns the same record, whatever display name it is given, and leaves the
  world as it was: same id, and the stored \<open>display_name\<close> is not overwritten.
\<close>

theorem C6_find_or_create_idempotent:
  assumes "get_or_create_user e w username d1 = (w1, Some u1)"
  shows "get_or_create_user e w1 username d2 = (w1, Some u1)"
proof (cases "find (\<lambda>u. u_username u = username) (users w)")
  case (Some u)
  with assms have "w1 = w" "u1 = u"
    by (simp_all add: get_or_create_user_def)
  with Some show ?thesis
    by (simp add: get_or_create_user_def)
next
  case None
  with assms have made: "users w1 = users w @ [u1]" "u_username u1 = username"
    by (auto simp add: get_or_create_user_def Let_def split: if_splits)
  with None have "find (\<lambda>u. u_username u = username) (users w1) = Some u1"
    by (simp add: find_appended)
  then show ?thesis
    by (simp add: get_or_create_user_def)
qed

theorem C6_find_or_create_idempotent_witness:
  "get_or_create_user env_ok reset_db ''alice'' (Some ''Alice'')
     = (fst (get_or_create_user env_ok reset_db ''alice'' (Some ''Alice'')),
        Some \<lparr>u_id = 1, u_username = ''alice'', u_display_name = ''Alice'',
              u_created_at = 1000, u_is_active = True\<rparr>)
   \<and> get_or_create_user env_ok
        (fst (get_or_create_user env_ok reset_db ''alice'' (Some ''Alice''))) ''alice''
        (Some ''Someone else'')
     = (fst (get_or_create_user env_ok reset_db ''alice'' (Some ''Alice'')),
        Some \<lparr>u_id = 1, u_username = ''alice'', u_display_name = ''Alice'',
              u_created_at = 1000, u_is_active = True\<rparr>)"
proof -
  have h: "get_or_create_user env_ok reset_db ''alice'' (Some ''Alice'')
     = (fst (get_or_create_user env_ok reset_db ''alice'' (Some ''Alice'')),
        Some \<lparr>u_id = 1, u_username = ''alice'', u_display_name = ''Alice'',
              u_created_at = 1000, u_is_active = True\<rparr>)"
    by code_simp
  show ?thesis
    using h C6_find_or_create_idempotent [OF h, of "Some ''Someone else''"] by simp
qed

lemma set_get_user_conversations:
  "yields_all (scan_conversations e) \<Longrightarrow>
   set (get_user_conversations e w uid active_only)
     = {c \<in> set (conversations w). c_user_id c = uid \<and> (active_only \<longrightarrow> c_is_active c)}"
  by (auto simp add: get_user_conversations_def order_by_desc_def yields_all_set)

text \<open>
  C8: \<open>delete_conversation\<close> returns \<open>False\<close> and changes nothing for an unknown id.
  When it returns \<open>True\<close>, the conversation existed; afterwards \<open>get_conversation\<close>
  returns its record with \<open>is_active\<close> false and \<open>updated_at\<close> touched, the owner's
  list of active conversations has no row with that id, and the owner's list of all
  conversations has one.
\<close>

theorem C8_soft_delete:
  "(get_conversation w cid = None \<longrightarrow> delete_conversation e w cid = (w, False))
   \<and> (delete_conversation e w cid = (w', True) \<and> yields_all (scan_conversations e) \<longrightarrow>
        (\<exists>c. get_conversation w cid = Some c
           \<and> get_conversation w' cid
               = Some (c\<lparr>c_is_active := False, c_updated_at := utcnow e (clock_reads w)\<rparr>)
           \<and> cid \<notin> c_id ` set (get_user_conversations e w' (c_user_id c) True)
           \<and> cid \<in> c_id ` set (get_user_conversations e w' (c_user_id c) False)))"
proof (intro conjI impI)
  assume "get_conversation w cid = None"
  then show "delete_conversation e w cid = (w, False)"
    by (simp add: delete_conversation_def)
next
  assume a: "delete_conversation e w cid = (w', True) \<and> yields_all (scan_conversations e)"
  then obtain c where c: "get_conversation w cid = Some c"
    by (cases "get_conversation w cid") (auto simp add: delete_conversation_def)
  define removed where
    "removed = c\<lparr>c_is_active := False, c_updated_at := utcnow e (clock_reads w)\<rparr>"
  from c have cid: "c_id c = cid" and mem: "c \<in> set (conversations w)"
    by (simp_all add: get_conversation_Some)
  from a c have w': "w' = store_conversation (count_commit (tick w)) removed"
    by (auto simp add: delete_conversation_def Let_def removed_def read_clock_def
        split: if_splits)
  have rid: "c_id removed = cid"
    using cid by (simp add: removed_def)
  have convs: "conversations w' = map (\<lambda>x. if c_id x = cid then removed else x) (conversations w)"
    using rid by (simp add: w' store_conversation_def)
  have 1: "get_conversation w' cid = Some removed"
    unfolding w' using c rid by (simp add: get_after_store)
  have 2: "cid \<notin> c_id ` set (get_user_conversations e w' (c_user_id c) True)"
    using a by (auto simp add: set_get_user_conversations convs removed_def split: if_splits)
  have "removed \<in> set (conversations w')"
    using mem cid unfolding convs by force
  moreover have "c_user_id removed = c_user_id c"
    by (simp add: removed_def)
  ultimately have "removed \<in> set (get_user_conversations e w' (c_user_id c) False)"
    using a by (simp add: set_get_user_conversations)
  then have "c_id removed \<in> c_id ` set (get_user_conversations e w' (c_user_id c) False)"
    by (rule imageI)
  then have 3: "cid \<in> c_id ` set (get_user_conversations e w' (c_user_id c) False)"
    by (simp only: rid)
  from c 1 2 3 show "\<exists>c. get_conversation w cid = Some c
           \<and> get_conversation w' cid
               = Some (c\<lparr>c_is_active := False, c_updated_at := utcnow e (clock_reads w)\<rparr>)
           \<and> cid \<notin> c_id ` set (get_user_conversations e w' (c_user_id c) True)
           \<and> cid \<in> c_id ` set (get_user_conversations e w' (c_user_id c) False)"
    unfolding removed_def by blast
qed

theorem C8_soft_delete_witness:
  "get_conversation world_test_chat 99999 = None
   \<and> delete_conversation env_ok world_test_chat 99999 = (world_test_chat, False)
   \<and> delete_conversation env_ok world_test_chat 1 = (world_deleted_chat, True)
   \<and> yields_all (scan_conversations env_ok)
   \<and> get_conversation world_deleted_chat 1
       = Some (test_chat\<lparr>c_is_active := False, c_updated_at := 1000\<rparr>)
   \<and> 1 \<notin> c_id ` set (get_user_conversations env_ok world_deleted_chat 1 True)
   \<and> 1 \<in> c_id ` set (get_user_conversations env_ok world_deleted_chat 1 False)"
proof -
  have h1: "get_conversation world_test_chat 99999 = None"
    by code_simp
  have h2: "delete_conversation env_ok world_test_chat 1 = (world_deleted_chat, True)"
    by code_simp
  have y: "yields_all (scan_conversations env_ok)"
    by (simp add: yields_all_def env_ok_def)
  have c: "get_conversation world_test_chat 1 = Some test_chat"
    by code_simp
  have v: "utcnow env_ok (clock_reads world_test_chat) = 1000" "c_user_id test_chat = 1"
    by (simp_all add: env_ok_def world_test_chat_def test_chat_def)
  show ?thesis
    using C8_soft_delete [of world_test_chat 99999 env_ok world_deleted_chat]
      C8_soft_delete [of world_test_chat 1 env_ok world_deleted_chat] h1 h2 y c v
    by simp
qed

text \<open>
  C10: \<open>create_message\<close> does not look at \<open>is_active\<close>. For a conversation that
  exists and is soft-deleted, with fields that pass the validation of \<open>MessageCreate\<close>
  and no storage fault at its two commits, it returns the message, appends it to the
  store and sets the conversation's \<open>updated_at\<close> to its second clock reading; the
  conversation stays inactive.
\<close>

theorem C10_inactive_conversation_accepts_messages:
  assumes "get_conversation w cid = Some c" and "\<not> c_is_active c"
    and "MessageCreate_valid content mu"
    and "\<not> commit_fault e (commits w)" and "\<not> commit_fault e (Suc (commits w))"
  shows "\<exists>m. snd (create_message e w content mt cid rt mu) = Some m
           \<and> m_content m = content \<and> m_message_type m = mt \<and> m_conversation_id m = cid
           \<and> messages (fst (create_message e w content mt cid rt mu)) = messages w @ [m]
           \<and> get_conversation (fst (create_message e w content mt cid rt mu)) cid
               = Some (c\<lparr>c_updated_at := utcnow e (Suc (clock_reads w))\<rparr>)
           \<and> \<not> c_is_active (c\<lparr>c_updated_at := utcnow e (Suc (clock_reads w))\<rparr>)"
proof -
  from assms(1) have "c_id c = cid"
    by (simp add: get_conversation_Some)
  with assms show ?thesis
    by (simp add: create_message_def Let_def faulty_def read_clock_def get_after_store)
qed

theorem C10_inactive_conversation_accepts_messages_witness:
  "delete_conversation env_ok world_test_chat 1 = (world_deleted_chat, True)
   \<and> get_conversation world_deleted_chat 1
       = Some (test_chat\<lparr>c_is_active := False, c_updated_at := 1000\<rparr>)
   \<and> \<not> c_is_active (test_chat\<lparr>c_is_active := False, c_updated_at := 1000\<rparr>)
   \<and> MessageCreate_valid ''Still here'' None
   \<and> \<not> commit_fault env_ok (commits world_deleted_chat)
   \<and> \<not> commit_fault env_ok (Suc (commits world_deleted_chat))
   \<and> snd (create_message env_ok world_deleted_chat ''Still here'' USER 1 None None) \<noteq> None
   \<and> map m_content
        (messages (fst (create_message env_ok world_deleted_chat ''Still here'' USER 1 None None)))
       = [''Still here'']
   \<and> get_conversation
        (fst (create_message env_ok world_deleted_chat ''Still here'' USER 1 None None)) 1
       = Some (test_chat\<lparr>c_is_active := False, c_updated_at := 1002\<rparr>)"
proof -
  have d: "delete_conversation env_ok world_test_chat 1 = (world_deleted_chat, True)"
    by code_simp
  have h1: "get_conversation world_deleted_chat 1
       = Some (test_chat\<lparr>c_is_active := False, c_updated_at := 1000\<rparr>)"
    by code_simp
  have h2: "\<not> c_is_active (test_chat\<lparr>c_is_active := False, c_updated_at := 1000\<rparr>)"
    by simp
  have h3: "MessageCreate_valid ''Still here'' None"
    by code_simp
  have h4: "\<not> commit_fault env_ok (commits world_deleted_chat)"
    and h5: "\<not> commit_fault env_ok (Suc (commits world_deleted_chat))"
    by (simp_all add: env_ok_def)
  have v: "messages world_deleted_chat = []" "utcnow env_ok (Suc (clock_reads world_deleted_chat)) = 1002"
    by code_simp+
  show ?thesis
    using d h1 h2 h3 h4 h5 v
      C10_inactive_conversation_accepts_messages [OF h1 h2 h3 h4 h5, of USER None]
    by auto
qed


lemma generate_response_in_all: "generate_response r x \<in> set all_responses"
proof -
  have g: "choice r greeting_responses \<in> set greeting_responses"
    by (rule choice_in_set) (simp add: greeting_responses_def)
  have b: "choice r goodbye_responses \<in> set goodbye_responses"
    by (rule choice_in_set) (simp add: goodbye_responses_def)
  have d: "choice r default_responses \<in> set default_responses"
    by (rule choice_in_set) (simp add: default_responses_def)
  show ?thesis
    using g b d question_reply_in_category [of r "strip (lower x)"]
    by (simp add: generate_response_def all_responses_def Let_def)
qed

lemma all_responses_short: "\<forall>s \<in> set all_responses. length s \<le> 5000"
  by (simp add: all_responses_def greeting_responses_def question_category_replies_def
      question_responses_def how_are_you_response_def name_response_def weather_response_def
      time_response_def negative_response_def positive_response_def help_response_def
      thanks_response_def goodbye_responses_def default_responses_def)

lemma generated_reply_valid: "MessageCreate_valid (generate_response r x) (Some model_name)"
  using generate_response_in_all [of r x] all_responses_short
  by (simp add: MessageCreate_valid_def model_name_def)

lemma error_reply_valid: "MessageCreate_valid error_reply (Some model_name)"
  by (simp add: MessageCreate_valid_def model_name_def error_reply_def)

lemma find_replace_not_None:
  "find (\<lambda>c. c_id c = cid) xs \<noteq> None \<Longrightarrow>
   find (\<lambda>c. c_id c = cid) (map (\<lambda>y. if c_id y = c_id x then x else y) xs) \<noteq> None"
  by (induction xs) (auto split: if_splits)

lemma get_conversation_store_not_None:
  "get_conversation w cid \<noteq> None \<Longrightarrow> get_conversation (store_conversation w x) cid \<noteq> None"
  unfolding get_conversation_def store_conversation_def
  using find_replace_not_None [of cid "conversations w" x] by simp

lemma create_message_Some:
  assumes "create_message e w content mt cid rt mu = (w1, Some m)"
  shows "messages w1 = messages w @ [m] \<and> (\<exists>c. get_conversation w1 cid = Some c)
         \<and> commits w1 = Suc (Suc (commits w))"
proof -
  from assms obtain c where c: "get_conversation w cid = Some c"
    by (cases "get_conversation w cid")
      (auto simp add: create_message_def Let_def split: if_splits)
  then have "c_id c = cid"
    by (simp add: get_conversation_Some)
  with assms c show ?thesis
    by (auto simp add: create_message_def Let_def get_after_store split: if_splits)
qed

lemma create_bot_message_result:
  assumes "get_conversation w cid = Some c" and "MessageCreate_valid content (Some model_name)"
  shows "(commit_fault e (commits w) \<longrightarrow>
            snd (create_bot_message e w content cid rt) = None
            \<and> same_tables w (fst (create_bot_message e w content cid rt)))
         \<and> (\<not> commit_fault e (commits w) \<longrightarrow>
            (\<exists>b. snd (create_bot_message e w content cid rt) = Some b
               \<and> m_content b = content \<and> m_message_type b = BOT
               \<and> m_created_at b = utcnow e (clock_reads w)
               \<and> messages (fst (create_bot_message e w content cid rt)) = messages w @ [b]
               \<and> conversations (fst (create_bot_message e w content cid rt)) = conversations w))"
  using assms
  by (simp add: create_bot_message_def Let_def faulty_def same_tables_def read_clock_def)

lemma messages_update_conversation_title [simp]:
  "messages (fst (update_conversation_title e w cid t)) = messages w"
  by (simp add: update_conversation_title_def Let_def split: option.splits)


text \<open>
  A turn whose user message has been saved, for either value of \<open>raised\<close>: what it
  returns and what the store holds afterwards.
\<close>

lemma turn_after_user_message_saved:
  assumes "strip content \<noteq> []"
    and "create_message e w (strip content) USER (c_id current) None None = (w1, Some um)"
  shows "messages w1 = messages w @ [um]
         \<and> (commit_fault e (commits w1) \<longrightarrow>
              snd (snd (send_message e w (Some current) raised r ms content)) = None
              \<and> messages (fst (send_message e w (Some current) raised r ms content))
                  = messages w @ [um])
         \<and> (\<not> commit_fault e (commits w1) \<and> \<not> raised \<longrightarrow>
              (\<exists>b. snd (snd (send_message e w (Some current) raised r ms content)) = Some b
                 \<and> m_content b = generate_response r (strip content)
                 \<and> m_message_type b = BOT
                 \<and> messages (fst (send_message e w (Some current) raised r ms content))
                     = messages w @ [um, b]))
         \<and> (\<not> commit_fault e (commits w1) \<and> raised \<longrightarrow>
              (\<exists>b. snd (snd (send_message e w (Some current) raised r ms content)) = Some b
                 \<and> m_content b = error_reply
                 \<and> m_message_type b = BOT
                 \<and> messages (fst (send_message e w (Some current) raised r ms content))
                     = messages w @ [um, b]))"
proof -
  let ?cid = "c_id current"
  let ?turn = "send_message e w (Some current) raised r ms content"
  let ?bot = "process_user_message e w1 raised r ms (strip content) ?cid"
  from create_message_Some [OF assms(2)]
  obtain c where um: "messages w1 = messages w @ [um]"
    and c: "get_conversation w1 ?cid = Some c"
    by blast
  have turn_None: "snd ?bot = None \<Longrightarrow> ?turn = (fst ?bot, Some current, None)"
    using assms by (cases ?bot) (simp add: send_message_def)
  have turn_Some: "\<And>b. snd ?bot = Some b \<Longrightarrow>
      snd (snd ?turn) = Some b \<and> messages (fst ?turn) = messages (fst ?bot)"
    using assms by (cases ?bot) (simp add: send_message_def)
  note gen = create_bot_message_result [OF c generated_reply_valid,
      of e r "strip content" "Some ms"]
  note err = create_bot_message_result [OF c error_reply_valid, of e None]
  have 1: "commit_fault e (commits w1) \<longrightarrow>
              snd (snd ?turn) = None \<and> messages (fst ?turn) = messages w @ [um]"
  proof
    assume f: "commit_fault e (commits w1)"
    with gen err have "snd ?bot = None" and "same_tables w1 (fst ?bot)"
      by (simp_all add: process_user_message_def)
    with turn_None um show "snd (snd ?turn) = None \<and> messages (fst ?turn) = messages w @ [um]"
      by (simp add: same_tables_def)
  qed
  have 2: "\<not> commit_fault e (commits w1) \<and> \<not> raised \<longrightarrow>
              (\<exists>b. snd (snd ?turn) = Some b
                 \<and> m_content b = generate_response r (strip content)
                 \<and> m_message_type b = BOT
                 \<and> messages (fst ?turn) = messages w @ [um, b])"
  proof
    assume a: "\<not> commit_fault e (commits w1) \<and> \<not> raised"
    with gen obtain b where b: "snd ?bot = Some b"
      "m_content b = generate_response r (strip content)" "m_message_type b = BOT"
      "messages (fst ?bot) = messages w1 @ [b]"
      by (auto simp add: process_user_message_def)
    with turn_Some [OF b(1)] um
    show "\<exists>b. snd (snd ?turn) = Some b
                 \<and> m_content b = generate_response r (strip content)
                 \<and> m_message_type b = BOT
                 \<and> messages (fst ?turn) = messages w @ [um, b]"
      by simp
  qed
  have 3: "\<not> commit_fault e (commits w1) \<and> raised \<longrightarrow>
              (\<exists>b. snd (snd ?turn) = Some b
                 \<and> m_content b = error_reply
                 \<and> m_message_type b = BOT
                 \<and> messages (fst ?turn) = messages w @ [um, b])"
  proof
    assume a: "\<not> commit_fault e (commits w1) \<and> raised"
    with err obtain b where b: "snd ?bot = Some b"
      "m_content b = error_reply" "m_message_type b = BOT"
      "messages (fst ?bot) = messages w1 @ [b]"
      by (auto simp add: process_user_message_def)
    with turn_Some [OF b(1)] um
    show "\<exists>b. snd (snd ?turn) = Some b
                 \<and> m_content b = error_reply
                 \<and> m_message_type b = BOT
                 \<and> messages (fst ?turn) = messages w @ [um, b]"
      by simp
  qed
  from um 1 2 3 show ?thesis by blast
qed

lemma error_reply_not_generated: "generate_response r x \<noteq> error_reply"
proof -
  have "error_reply \<notin> set all_responses"
    by (simp add: all_responses_def greeting_responses_def question_category_replies_def
        question_responses_def how_are_you_response_def name_response_def
        weather_response_def time_response_def negative_response_def positive_response_def
        help_response_def thanks_response_def goodbye_responses_def default_responses_def
        error_reply_def)
  with generate_response_in_all [of r x] show ?thesis
    by auto
qed

text \<open>
  C5: take a turn whose user message has been saved. The generator returns a reply for
  every text, so what can fail afterwards is the save of the reply, and it fails exactly
  when its commit meets a storage fault. The turn then returns no reply, and the store
  holds the user's message and nothing after it. When the save succeeds, the turn returns
  the saved reply, whose text is the generated one. A reply that the turn returns is
  never the apology text, and the user's message is in the store after the turn in every
  case.
\<close>

theorem C5_failed_reply_keeps_user_message:
  assumes "strip content \<noteq> []"
    and "create_message e w (strip content) USER (c_id current) None None = (w1, Some um)"
  shows "messages w1 = messages w @ [um]
         \<and> (snd (process_user_message e w1 False r ms (strip content) (c_id current)) = None)
             = commit_fault e (commits w1)
         \<and> (snd (process_user_message e w1 False r ms (strip content) (c_id current)) = None
              \<longrightarrow>
              snd (snd (send_message e w (Some current) False r ms content)) = None
              \<and> messages (fst (send_message e w (Some current) False r ms content))
                  = messages w @ [um])
         \<and> (\<not> commit_fault e (commits w1) \<longrightarrow>
              (\<exists>b. snd (snd (send_message e w (Some current) False r ms content)) = Some b
                 \<and> m_content b = generate_response r (strip content)
                 \<and> m_message_type b = BOT
                 \<and> messages (fst (send_message e w (Some current) False r ms content))
                     = messages w @ [um, b]))
         \<and> (\<forall>b. snd (snd (send_message e w (Some current) False r ms content)) = Some b
                \<longrightarrow> m_content b = generate_response r (strip content)
                  \<and> m_content b \<noteq> error_reply)
         \<and> um \<in> set (messages (fst (send_message e w (Some current) False r ms content)))"
proof -
  let ?turn = "send_message e w (Some current) False r ms content"
  let ?bot = "process_user_message e w1 False r ms (strip content) (c_id current)"
  note t = turn_after_user_message_saved [OF assms, of False r ms]
  from create_message_Some [OF assms(2)]
  obtain c where c: "get_conversation w1 (c_id current) = Some c"
    by blast
  note gen = create_bot_message_result [OF c generated_reply_valid,
      of e r "strip content" "Some ms"]
  have 1: "messages w1 = messages w @ [um]"
    using t by blast
  have 2: "(snd ?bot = None) = commit_fault e (commits w1)"
    using gen by (auto simp add: process_user_message_def)
  have 3: "snd ?bot = None \<longrightarrow>
             snd (snd ?turn) = None \<and> messages (fst ?turn) = messages w @ [um]"
    using t 2 by blast
  have 4: "\<not> commit_fault e (commits w1) \<longrightarrow>
              (\<exists>b. snd (snd ?turn) = Some b
                 \<and> m_content b = generate_response r (strip content)
                 \<and> m_message_type b = BOT
                 \<and> messages (fst ?turn) = messages w @ [um, b])"
    using t by blast
  have 5: "\<forall>b. snd (snd ?turn) = Some b
                \<longrightarrow> m_content b = generate_response r (strip content)
                  \<and> m_content b \<noteq> error_reply"
  proof (intro allI impI)
    fix b
    assume b: "snd (snd ?turn) = Some b"
    have "\<not> commit_fault e (commits w1)"
      using t b by auto
    with 4 b have "m_content b = generate_response r (strip content)"
      by auto
    then show "m_content b = generate_response r (strip content) \<and> m_content b \<noteq> error_reply"
      by (simp add: error_reply_not_generated)
  qed
  have 6: "um \<in> set (messages (fst ?turn))"
  proof (cases "commit_fault e (commits w1)")
    case True
    with t show ?thesis by auto
  next
    case False
    with 4 show ?thesis by auto
  qed
  from 1 2 3 4 5 6 show ?thesis by blast
qed

theorem C5_failed_reply_keeps_user_message_witness:
  "strip ''Hello'' \<noteq> []
   \<and> create_message env_bot_save_fails world_test_chat (strip ''Hello'') USER (c_id test_chat)
        None None = (world_hello_saved, Some hello_message)
   \<and> commit_fault env_bot_save_fails (commits world_hello_saved)
   \<and> snd (process_user_message env_bot_save_fails world_hello_saved False 0 5
             (strip ''Hello'') (c_id test_chat)) = None
   \<and> snd (snd (send_message env_bot_save_fails world_test_chat (Some test_chat) False 0 5
                  ''Hello'')) = None
   \<and> messages (fst (send_message env_bot_save_fails world_test_chat (Some test_chat) False 0 5
                       ''Hello'')) = [hello_message]
   \<and> create_message env_ok world_test_chat (strip ''Hello'') USER (c_id test_chat)
        None None = (world_hello_saved, Some hello_message)
   \<and> \<not> commit_fault env_ok (commits world_hello_saved)
   \<and> map_option m_content
        (snd (snd (send_message env_ok world_test_chat (Some test_chat) False 0 5 ''Hello'')))
       = Some (generate_response 0 (strip ''Hello''))
   \<and> map_option m_content
        (snd (snd (send_message env_ok world_test_chat (Some test_chat) False 0 5 ''Hello'')))
       \<noteq> Some error_reply
   \<and> hello_message
       \<in> set (messages (fst (send_message env_ok world_test_chat (Some test_chat) False 0 5
                                ''Hello'')))"
proof -
  have s: "strip ''Hello'' \<noteq> []"
    by code_simp
  have f: "create_message env_bot_save_fails world_test_chat (strip ''Hello'') USER
             (c_id test_chat) None None = (world_hello_saved, Some hello_message)"
    by code_simp
  have k: "create_message env_ok world_test_chat (strip ''Hello'') USER
             (c_id test_chat) None None = (world_hello_saved, Some hello_message)"
    by code_simp
  have cf: "commit_fault env_bot_save_fails (commits world_hello_saved)"
    by code_simp
  have ck: "\<not> commit_fault env_ok (commits world_hello_saved)"
    by (simp add: env_ok_def)
  have m: "messages world_test_chat = []"
    by (simp add: world_test_chat_def)
  show ?thesis
    using s f k cf ck m
      C5_failed_reply_keeps_user_message [OF s f, of 0 5]
      C5_failed_reply_keeps_user_message [OF s k, of 0 5]
    by auto
qed

lemma older_refl [simp]: "older xs xs"
  by (induction xs) auto

lemma older_append [simp]: "older xs (xs @ ys)"
  by (induction xs) auto

lemma older_trans: "older xs ys \<Longrightarrow> older ys zs \<Longrightarrow> older xs zs"
proof (induction xs ys arbitrary: zs rule: older.induct)
  case (3 x xs y ys)
  then show ?case by (cases zs) auto
qed auto

lemma older_map:
  "(\<And>x. x \<in> set xs \<Longrightarrow> c_id (f x) = c_id x \<and> c_updated_at x \<le> c_updated_at (f x))
   \<Longrightarrow> older xs (map f xs)"
  by (induction xs) auto

lemma older_find:
  "older xs ys \<Longrightarrow> find (\<lambda>c. c_id c = cid) xs = Some c \<Longrightarrow>
   \<exists>c'. find (\<lambda>c. c_id c = cid) ys = Some c' \<and> c_updated_at c \<le> c_updated_at c'"
  by (induction xs ys rule: older.induct) (auto split: if_splits)

lemma good_step_refl [simp]: "good_step e w w"
  by (simp add: good_step_def)

lemma good_step_trans: "good_step e w w1 \<Longrightarrow> good_step e w1 w2 \<Longrightarrow> good_step e w w2"
  unfolding good_step_def using older_trans by blast

lemma good_step_same:
  assumes "clock_monotone e" and "conversations w' = conversations w"
    and "clock_reads w \<le> clock_reads w'"
  shows "good_step e w w'"
  using assms unfolding good_step_def not_ahead_def clock_monotone_def
  by (metis older_refl order_trans)

lemma good_step_new:
  assumes "clock_monotone e" and "conversations w' = conversations w @ [c]"
    and "clock_reads w \<le> clock_reads w'" and "c_updated_at c = utcnow e k"
    and "k \<le> clock_reads w'"
  shows "good_step e w w'"
  using assms unfolding good_step_def not_ahead_def clock_monotone_def
  by (auto intro: order_trans)

lemma good_step_store:
  assumes m: "clock_monotone e"
    and cs: "conversations w' = map (\<lambda>x. if c_id x = c_id c then c else x) (conversations w)"
    and t: "c_updated_at c = utcnow e k" and k: "clock_reads w \<le> k" "k \<le> clock_reads w'"
  shows "good_step e w w'"
  unfolding good_step_def
proof (intro impI conjI)
  assume inv: "not_ahead e w"
  have le: "\<And>x. x \<in> set (conversations w) \<Longrightarrow> c_updated_at x \<le> utcnow e k"
    using inv m k(1) unfolding not_ahead_def clock_monotone_def by (meson order_trans)
  have kk: "utcnow e k \<le> utcnow e (clock_reads w')"
    using m k(2) unfolding clock_monotone_def by blast
  show "not_ahead e w'"
    unfolding not_ahead_def cs using le kk t by (auto intro: order_trans)
  show "older (conversations w) (conversations w')"
    unfolding cs using le t by (intro older_map) auto
qed


lemma conversations_store_conversation [simp]:
  "conversations (store_conversation w c)
     = map (\<lambda>x. if c_id x = c_id c then c else x) (conversations w)"
  by (simp add: store_conversation_def)

lemma good_get_or_create_user:
  "clock_monotone e \<Longrightarrow> good_step e w (fst (get_or_create_user e w username display_name))"
  by (rule good_step_same)
    (auto simp add: get_or_create_user_def Let_def split: option.splits)

lemma good_create_conversation:
  assumes "clock_monotone e"
  shows "good_step e w (fst (create_conversation e w user_id title))"
proof (cases "conversations (fst (create_conversation e w user_id title)) = conversations w")
  case True
  with assms show ?thesis
    by (rule good_step_same) (auto simp add: create_conversation_def Let_def)
next
  case False
  then obtain c where "conversations (fst (create_conversation e w user_id title))
        = conversations w @ [c]" "c_updated_at c = utcnow e (Suc (clock_reads w))"
      "clock_reads (fst (create_conversation e w user_id title)) = Suc (Suc (clock_reads w))"
    by (auto simp add: create_conversation_def Let_def read_clock_def split: if_splits)
  with assms show ?thesis
    by (intro good_step_new [where k = "Suc (clock_reads w)"]) auto
qed

lemma good_create_bot_message:
  "clock_monotone e \<Longrightarrow> good_step e w (fst (create_bot_message e w content cid rt))"
  by (rule good_step_same) (auto simp add: create_bot_message_def Let_def)

lemma good_process_user_message:
  "clock_monotone e \<Longrightarrow> good_step e w (fst (process_user_message e w raised r ms um cid))"
  by (simp add: process_user_message_def good_create_bot_message)

lemma good_update_conversation_title:
  assumes "clock_monotone e"
  shows "good_step e w (fst (update_conversation_title e w cid title))"
proof (cases "get_conversation w cid")
  case None
  then show ?thesis by (simp add: update_conversation_title_def)
next
  case (Some c)
  show ?thesis
  proof (cases "faulty e (tick w)")
    case True
    with Some assms show ?thesis
      by (intro good_step_same) (auto simp add: update_conversation_title_def Let_def)
  next
    case False
    with Some assms show ?thesis
      by (intro good_step_store [where k = "clock_reads w"
            and c = "c\<lparr>c_title := title, c_updated_at := read_clock e w\<rparr>"])
        (auto simp add: update_conversation_title_def Let_def read_clock_def)
  qed
qed

lemma good_delete_conversation:
  assumes "clock_monotone e"
  shows "good_step e w (fst (delete_conversation e w cid))"
proof (cases "get_conversation w cid")
  case None
  then show ?thesis by (simp add: delete_conversation_def)
next
  case (Some c)
  show ?thesis
  proof (cases "faulty e (tick w)")
    case True
    with Some assms show ?thesis
      by (intro good_step_same) (auto simp add: delete_conversation_def Let_def)
  next
    case False
    with Some assms show ?thesis
      by (intro good_step_store [where k = "clock_reads w"
            and c = "c\<lparr>c_is_active := False, c_updated_at := read_clock e w\<rparr>"])
        (auto simp add: delete_conversation_def Let_def read_clock_def)
  qed
qed

lemma good_create_message:
  assumes "clock_monotone e"
  shows "good_step e w (fst (create_message e w content mt cid rt mu))"
proof (cases "snd (create_message e w content mt cid rt mu)")
  case None
  then have "conversations (fst (create_message e w content mt cid rt mu)) = conversations w"
    "clock_reads w \<le> clock_reads (fst (create_message e w content mt cid rt mu))"
    by (auto simp add: create_message_def Let_def split: if_splits option.splits)
  with assms show ?thesis by (intro good_step_same)
next
  case (Some m)
  then obtain c where c: "get_conversation w cid = Some c"
    by (cases "get_conversation w cid")
      (auto simp add: create_message_def Let_def split: if_splits)
  with Some assms show ?thesis
    by (intro good_step_store [where k = "Suc (clock_reads w)"
          and c = "c\<lparr>c_updated_at := utcnow e (Suc (clock_reads w))\<rparr>"])
      (auto simp add: create_message_def Let_def read_clock_def split: if_splits)
qed

lemma good_send_message:
  assumes "clock_monotone e"
  shows "good_step e w (fst (send_message e w current raised r ms content))"
proof (cases current)
  case None
  then show ?thesis by (simp add: send_message_def)
next
  case (Some cur)
  obtain w1 res1 where 1: "create_message e w (strip content) USER (c_id cur) None None = (w1, res1)"
    by (cases "create_message e w (strip content) USER (c_id cur) None None")
  obtain w2 res2 where 2: "process_user_message e w1 raised r ms (strip content) (c_id cur) = (w2, res2)"
    by (cases "process_user_message e w1 raised r ms (strip content) (c_id cur)")
  have g1: "good_step e w w1"
    using good_create_message [OF assms, of w "strip content" USER "c_id cur" None None] 1 by simp
  have g2: "good_step e w1 w2"
    using good_process_user_message [OF assms, of w1 raised r ms "strip content" "c_id cur"] 2
    by simp
  have g3: "good_step e w2 (fst (update_conversation_title e w2 (c_id cur) (title_from content)))"
    using assms by (rule good_update_conversation_title)
  from g1 g2 have g12: "good_step e w w2" by (rule good_step_trans)
  from g12 g3 have g123: "good_step e w (fst (update_conversation_title e w2 (c_id cur) (title_from content)))"
    by (rule good_step_trans)
  show ?thesis
    using Some 1 2 g1 g12 g123
    by (auto simp add: send_message_def split: option.splits)
qed

lemma good_step_op: "clock_monotone e \<Longrightarrow> good_step e w (step e w x)"
  by (cases x)
    (simp_all add: good_get_or_create_user good_create_conversation good_create_message
      good_update_conversation_title good_delete_conversation good_process_user_message
      good_send_message)

lemma good_run: "clock_monotone e \<Longrightarrow> good_step e w (run e w ops)"
proof (induction ops arbitrary: w)
  case Nil
  then show ?case by (simp add: run_def)
next
  case (Cons x ops)
  have "good_step e w (step e w x)"
    using Cons.prems by (rule good_step_op)
  moreover have "good_step e (step e w x) (run e (step e w x) ops)"
    using Cons.prems by (rule Cons.IH)
  ultimately have "good_step e w (run e (step e w x) ops)"
    by (rule good_step_trans)
  then show ?case
    by (simp add: run_def)
qed

lemma run_append: "run e w (ops1 @ ops2) = run e (run e w ops1) ops2"
  by (simp add: run_def)

lemma not_ahead_reset_db: "not_ahead e reset_db"
  by (simp add: not_ahead_def reset_db_def)

text \<open>
  The part of C7 that holds: under a monotone clock, along every run of operations from
  the empty store, a conversation that exists keeps existing and its \<open>updated_at\<close>
  never decreases; and a message that \<open>create_message\<close> returns is not newer than the
  \<open>updated_at\<close> of its conversation afterwards.
\<close>

lemma updated_at_never_decreases:
  assumes "clock_monotone e"
    and "get_conversation (run e reset_db ops1) cid = Some c1"
  shows "\<exists>c2. get_conversation (run e reset_db (ops1 @ ops2)) cid = Some c2
              \<and> c_updated_at c1 \<le> c_updated_at c2"
proof -
  have "good_step e reset_db (run e reset_db ops1)"
    using assms(1) by (rule good_run)
  then have inv: "not_ahead e (run e reset_db ops1)"
    using not_ahead_reset_db by (simp add: good_step_def)
  have "good_step e (run e reset_db ops1) (run e (run e reset_db ops1) ops2)"
    using assms(1) by (rule good_run)
  with inv have "older (conversations (run e reset_db ops1))
      (conversations (run e reset_db (ops1 @ ops2)))"
    by (simp add: good_step_def run_append)
  from older_find [OF this] assms(2) show ?thesis
    by (simp add: get_conversation_def)
qed

lemma create_message_touches_after_created_at:
  assumes "clock_monotone e"
    and "create_message e w content mt cid rt mu = (w', Some m)"
  shows "\<exists>c. get_conversation w' cid = Some c \<and> m_created_at m \<le> c_updated_at c"
proof -
  from assms(2) obtain c where c: "get_conversation w cid = Some c"
    by (cases "get_conversation w cid")
      (auto simp add: create_message_def Let_def split: if_splits)
  then have "c_id c = cid"
    by (simp add: get_conversation_Some)
  moreover have "utcnow e (clock_reads w) \<le> utcnow e (Suc (clock_reads w))"
    using assms(1) by (simp add: clock_monotone_def)
  ultimately show ?thesis
    using assms(2) c
    by (auto simp add: create_message_def Let_def read_clock_def get_after_store
        split: if_splits)
qed

lemma env_ok_clock_monotone: "clock_monotone env_ok"
  by (simp add: clock_monotone_def env_ok_def)

text \<open>
  C7 at a failing input: one turn with the text \<open>Hello\<close> in the conversation of
  \<open>world_test_chat\<close>, under the clock of \<open>env_ok\<close> and without any fault. The user's
  message is created at 1000 and \<open>create_message\<close> touches the conversation at 1001;
  the reply is created at 1002 by \<open>create_bot_message\<close>, which does not touch the
  conversation. After the turn the newest message of the conversation has
  \<open>created_at\<close> 1002 and the conversation has \<open>updated_at\<close> 1001.
\<close>

theorem C7_bot_message_newer_than_updated_at:
  "map m_message_type
        (messages (fst (send_message env_ok world_test_chat (Some test_chat) False 0 5 ''Hello'')))
     = [USER, BOT]
   \<and> map m_conversation_id
        (messages (fst (send_message env_ok world_test_chat (Some test_chat) False 0 5 ''Hello'')))
     = [1, 1]
   \<and> map m_created_at
        (messages (fst (send_message env_ok world_test_chat (Some test_chat) False 0 5 ''Hello'')))
     = [1000, 1002]
   \<and> map_option c_updated_at
        (get_conversation
           (fst (send_message env_ok world_test_chat (Some test_chat) False 0 5 ''Hello'')) 1)
     = Some 1001"
  by code_simp

end
